theory Spec2Isabelle
  imports Main "HOL-Library.Word"
begin

unbundle bit_operations_syntax

section \<open>Windows types and constants used by reparselib.cpp\<close>

type_synonym BYTE = "8 word"
type_synonym WORD = "16 word"
type_synonym DWORD = "32 word"
type_synonym UINT = "32 word"
type_synonym BOOL = "32 word"
type_synonym HANDLE = "64 word"
type_synonym LPCWSTR = string

text \<open>A GUID is copied as a block of 16 raw bytes by the struct assignments of the source.\<close>
type_synonym GUID = "BYTE list"

definition FALSE :: BOOL where "FALSE = 0"
definition TRUE :: BOOL where "TRUE = 1"

definition INVALID_HANDLE_VALUE :: HANDLE where "INVALID_HANDLE_VALUE = - 1"
definition INVALID_FILE_ATTRIBUTES :: DWORD where "INVALID_FILE_ATTRIBUTES = 0xFFFFFFFF"
definition FILE_ATTRIBUTE_DIRECTORY :: DWORD where "FILE_ATTRIBUTE_DIRECTORY = 0x10"
definition FILE_ATTRIBUTE_REPARSE_POINT :: DWORD where "FILE_ATTRIBUTE_REPARSE_POINT = 0x400"
definition GENERIC_READ :: DWORD where "GENERIC_READ = 0x80000000"
definition GENERIC_WRITE :: DWORD where "GENERIC_WRITE = 0x40000000"
definition FILE_SHARE_READ :: DWORD where "FILE_SHARE_READ = 1"
definition FILE_SHARE_WRITE :: DWORD where "FILE_SHARE_WRITE = 2"
definition FILE_FLAG_OPEN_REPARSE_POINT :: DWORD where "FILE_FLAG_OPEN_REPARSE_POINT = 0x00200000"
definition FILE_FLAG_BACKUP_SEMANTICS :: DWORD where "FILE_FLAG_BACKUP_SEMANTICS = 0x02000000"

text \<open>The three control codes the library issues.\<close>
datatype fsctl = FSCTL_GET_REPARSE_POINT | FSCTL_SET_REPARSE_POINT | FSCTL_DELETE_REPARSE_POINT

text \<open>
  Layout of \<open>REPARSE_GUID_DATA_BUFFER\<close> (winnt.h): \<open>DWORD ReparseTag\<close> at offset 0,
  \<open>WORD ReparseDataLength\<close> at 4, \<open>WORD Reserved\<close> at 6, \<open>GUID ReparseGuid\<close> at 8 and
  \<open>GenericReparseBuffer.DataBuffer\<close> at 24. The header without the GUID is the first
  8 bytes (\<open>REPARSE_DATA_BUFFER_HEADER_SIZE\<close>); \<open>REPARSE_GUID_DATA_BUFFER_HEADER_SIZE\<close> is the
  offset of \<open>GenericReparseBuffer\<close>.
\<close>

definition off_ReparseTag :: nat where "off_ReparseTag = 0"
definition off_ReparseDataLength :: nat where "off_ReparseDataLength = 4"
definition off_Reserved :: nat where "off_Reserved = 6"
definition off_ReparseGuid :: nat where "off_ReparseGuid = 8"
definition off_DataBuffer :: nat where "off_DataBuffer = 24"

definition REPARSE_DATA_BUFFER_HEADER_SIZE :: nat where
  "REPARSE_DATA_BUFFER_HEADER_SIZE = off_ReparseGuid"
definition REPARSE_GUID_DATA_BUFFER_HEADER_SIZE :: nat where
  "REPARSE_GUID_DATA_BUFFER_HEADER_SIZE = off_DataBuffer"
definition MAXIMUM_REPARSE_DATA_BUFFER_SIZE :: nat where
  "MAXIMUM_REPARSE_DATA_BUFFER_SIZE = 16 * 1024"

section \<open>Raw memory\<close>

text \<open>Little-endian encoding of a machine word in \<open>n\<close> bytes, and its decoding.\<close>

definition to_le :: "nat \<Rightarrow> 'a::len word \<Rightarrow> BYTE list" where
  "to_le n w = map (\<lambda>i. ucast (drop_bit (8 * i) w)) [0..<n]"

fun of_le :: "BYTE list \<Rightarrow> 'a::len word" where
  "of_le [] = 0"
| "of_le (b # bs) = ucast b OR push_bit 8 (of_le bs)"

definition load_bytes :: "nat \<Rightarrow> nat \<Rightarrow> BYTE list \<Rightarrow> BYTE list" where
  "load_bytes off n m = take n (drop off m)"

text \<open>
  Writing \<open>bs\<close> at offset \<open>off\<close>. A write that runs past the end of the block is not cut
  off: the block grows, so that an overrun of an allocation stays visible as a block longer
  than its allocated size.
\<close>
definition store_bytes :: "nat \<Rightarrow> BYTE list \<Rightarrow> BYTE list \<Rightarrow> BYTE list" where
  "store_bytes off bs m = take off m @ bs @ drop (off + length bs) m"

definition get_ReparseTag :: "BYTE list \<Rightarrow> DWORD" where
  "get_ReparseTag m = of_le (load_bytes off_ReparseTag 4 m)"
definition set_ReparseTag :: "DWORD \<Rightarrow> BYTE list \<Rightarrow> BYTE list" where
  "set_ReparseTag v m = store_bytes off_ReparseTag (to_le 4 v) m"
definition get_ReparseDataLength :: "BYTE list \<Rightarrow> WORD" where
  "get_ReparseDataLength m = of_le (load_bytes off_ReparseDataLength 2 m)"
definition set_ReparseDataLength :: "WORD \<Rightarrow> BYTE list \<Rightarrow> BYTE list" where
  "set_ReparseDataLength v m = store_bytes off_ReparseDataLength (to_le 2 v) m"
definition get_Reserved :: "BYTE list \<Rightarrow> WORD" where
  "get_Reserved m = of_le (load_bytes off_Reserved 2 m)"
definition set_Reserved :: "WORD \<Rightarrow> BYTE list \<Rightarrow> BYTE list" where
  "set_Reserved v m = store_bytes off_Reserved (to_le 2 v) m"
definition get_ReparseGuid :: "BYTE list \<Rightarrow> GUID" where
  "get_ReparseGuid m = load_bytes off_ReparseGuid 16 m"
definition set_ReparseGuid :: "GUID \<Rightarrow> BYTE list \<Rightarrow> BYTE list" where
  "set_ReparseGuid g m = store_bytes off_ReparseGuid g m"

section \<open>The operating system and the process state\<close>

text \<open>
  The library is a client of four Win32 entry points. They are parameters of the model:
  \<open>'w\<close> is the state of the file system, which the library cannot see.
  \<^item> \<open>GetFileAttributes\<close> reads the attribute flags of a path;
  \<^item> \<open>CreateFile name access share flags\<close> returns a handle or \<open>INVALID_HANDLE_VALUE\<close>
    (the source always passes \<open>OPEN_EXISTING\<close>, no security attributes and no template);
  \<^item> \<open>DeviceIoControl h code input nOut\<close> returns the BOOL result and the bytes the
    driver wrote to the output buffer;
  \<^item> \<open>CloseHandle\<close> releases a handle.
\<close>

record 'w winapi =
  GetFileAttributes :: "'w \<Rightarrow> LPCWSTR \<Rightarrow> DWORD"
  CreateFile :: "LPCWSTR \<Rightarrow> DWORD \<Rightarrow> DWORD \<Rightarrow> DWORD \<Rightarrow> 'w \<Rightarrow> HANDLE \<times> 'w"
  DeviceIoControl :: "HANDLE \<Rightarrow> fsctl \<Rightarrow> BYTE list \<Rightarrow> nat \<Rightarrow> 'w \<Rightarrow> (BOOL \<times> BYTE list) \<times> 'w"
  CloseHandle :: "HANDLE \<Rightarrow> 'w \<Rightarrow> 'w"

text \<open>What a run of the library does that can be observed from outside.\<close>
datatype event =
    EvCreateFile LPCWSTR DWORD DWORD DWORD HANDLE
  | EvDeviceIoControl HANDLE fsctl "BYTE list" nat nat BOOL
  | EvCloseHandle HANDLE
  | EvGlobalAlloc nat nat
  | EvGlobalFree nat
  | EvStore "BYTE list"

text \<open>
  The state of the calling process: the file system, the handles it holds open, the
  blocks of \<open>GlobalAlloc\<close> it has not freed (identifier and size), and the log of events.
\<close>
record 'w state =
  world :: 'w
  handles :: "HANDLE list"
  allocs :: "(nat \<times> nat) list"
  next_id :: nat
  trace :: "event list"

text \<open>A block of global memory as the code holds it: identifier, allocated size, contents.\<close>
record hglobal =
  hid :: nat
  cap :: nat
  mem :: "BYTE list"

text \<open>\<open>GlobalAlloc(GPTR, n)\<close>: fixed memory initialised to zero. Allocation is taken to succeed.\<close>
definition GlobalAlloc :: "nat \<Rightarrow> 'w state \<Rightarrow> hglobal \<times> 'w state" where
  "GlobalAlloc n s =
     (\<lparr>hid = next_id s, cap = n, mem = replicate n 0\<rparr>,
      s\<lparr>allocs := (next_id s, n) # allocs s, next_id := Suc (next_id s),
        trace := trace s @ [EvGlobalAlloc (next_id s) n]\<rparr>)"

definition GlobalFree :: "hglobal \<Rightarrow> 'w state \<Rightarrow> 'w state" where
  "GlobalFree rd s =
     s\<lparr>allocs := filter (\<lambda>b. fst b \<noteq> hid rd) (allocs s),
       trace := trace s @ [EvGlobalFree (hid rd)]\<rparr>"

definition call_CreateFile ::
  "'w winapi \<Rightarrow> LPCWSTR \<Rightarrow> DWORD \<Rightarrow> DWORD \<Rightarrow> DWORD \<Rightarrow> 'w state \<Rightarrow> HANDLE \<times> 'w state" where
  "call_CreateFile os name access share flags s =
     (let (h, w) = CreateFile os name access share flags (world s)
      in (h, s\<lparr>world := w,
               handles := (if h = INVALID_HANDLE_VALUE then handles s else h # handles s),
               trace := trace s @ [EvCreateFile name access share flags h]\<rparr>))"

definition call_CloseHandle :: "'w winapi \<Rightarrow> HANDLE \<Rightarrow> 'w state \<Rightarrow> 'w state" where
  "call_CloseHandle os h s =
     s\<lparr>world := CloseHandle os h (world s), handles := remove1 h (handles s),
       trace := trace s @ [EvCloseHandle h]\<rparr>"

text \<open>
  \<open>DeviceIoControl(h, code, lpIn, nIn, lpOut, nOut, &dwRet, NULL)\<close>. The driver sees the
  first \<open>nIn\<close> bytes at \<open>lpIn\<close> (nothing when \<open>lpIn\<close> is NULL) and may write at most
  \<open>nOut\<close> bytes; the bytes it wrote are returned next to the BOOL result.
\<close>
definition call_DeviceIoControl ::
  "'w winapi \<Rightarrow> HANDLE \<Rightarrow> fsctl \<Rightarrow> BYTE list option \<Rightarrow> nat \<Rightarrow> nat \<Rightarrow> 'w state
     \<Rightarrow> (BOOL \<times> BYTE list) \<times> 'w state" where
  "call_DeviceIoControl os h code lpIn nIn nOut s =
     (let input = (case lpIn of None \<Rightarrow> [] | Some m \<Rightarrow> take nIn m);
          ((r, out), w) = DeviceIoControl os h code input nOut (world s)
      in ((r, take nOut out),
          s\<lparr>world := w, trace := trace s @ [EvDeviceIoControl h code input nIn nOut r]\<rparr>))"

section \<open>reparselib.cpp\<close>

definition OpenFileForWrite :: "'w winapi \<Rightarrow> LPCWSTR \<Rightarrow> BOOL \<Rightarrow> 'w state \<Rightarrow> HANDLE \<times> 'w state" where
  "OpenFileForWrite os sFileName bBackup s =
     call_CreateFile os sFileName GENERIC_WRITE (FILE_SHARE_READ OR FILE_SHARE_WRITE)
       (if bBackup \<noteq> 0 then FILE_FLAG_OPEN_REPARSE_POINT OR FILE_FLAG_BACKUP_SEMANTICS
        else FILE_FLAG_OPEN_REPARSE_POINT) s"

definition OpenFileForRead :: "'w winapi \<Rightarrow> LPCWSTR \<Rightarrow> BOOL \<Rightarrow> 'w state \<Rightarrow> HANDLE \<times> 'w state" where
  "OpenFileForRead os sFileName bBackup s =
     call_CreateFile os sFileName GENERIC_READ FILE_SHARE_READ
       (if bBackup \<noteq> 0 then FILE_FLAG_OPEN_REPARSE_POINT OR FILE_FLAG_BACKUP_SEMANTICS
        else FILE_FLAG_OPEN_REPARSE_POINT) s"

text \<open>The BOOL returned is the masked attribute word itself: any non-zero value is true.\<close>
definition ReparsePointExists :: "'w winapi \<Rightarrow> LPCWSTR \<Rightarrow> 'w state \<Rightarrow> BOOL" where
  "ReparsePointExists os sFileName s =
     GetFileAttributes os (world s) sFileName AND FILE_ATTRIBUTE_REPARSE_POINT"

text \<open>
  An output pointer is \<open>None\<close> when it is NULL and \<open>Some v\<close> when it points to a location
  that holds \<open>v\<close>. A query returns its BOOL result, the pointer with the contents of the
  location after the call, and the new state.
\<close>

definition GetReparseGUID ::
  "'w winapi \<Rightarrow> LPCWSTR \<Rightarrow> GUID option \<Rightarrow> 'w state \<Rightarrow> BOOL \<times> GUID option \<times> 'w state" where
  "GetReparseGUID os sFileName pGuid s =
     (if pGuid = None then (FALSE, pGuid, s)
      else if ReparsePointExists os sFileName s = 0 then (FALSE, pGuid, s)
      else
        let (hSrc, s1) = OpenFileForRead os sFileName
              (GetFileAttributes os (world s) sFileName AND FILE_ATTRIBUTE_DIRECTORY) s
        in if hSrc = INVALID_HANDLE_VALUE then (FALSE, pGuid, s1)
           else
             let (rd, s2) = GlobalAlloc MAXIMUM_REPARSE_DATA_BUFFER_SIZE s1;
                 ((r, out), s3) = call_DeviceIoControl os hSrc FSCTL_GET_REPARSE_POINT
                                    None 0 MAXIMUM_REPARSE_DATA_BUFFER_SIZE s2;
                 rd1 = rd\<lparr>mem := store_bytes 0 out (mem rd)\<rparr>;
                 (bResult, pGuid1, s4) =
                   (if r \<noteq> 0
                    then (TRUE, Some (get_ReparseGuid (mem rd1)),
                          s3\<lparr>trace := trace s3 @ [EvStore (get_ReparseGuid (mem rd1))]\<rparr>)
                    else (FALSE, pGuid, s3));
                 s5 = call_CloseHandle os hSrc s4;
                 s6 = GlobalFree rd1 s5
             in (bResult, pGuid1, s6))"

definition GetReparseTag ::
  "'w winapi \<Rightarrow> LPCWSTR \<Rightarrow> DWORD option \<Rightarrow> 'w state \<Rightarrow> BOOL \<times> DWORD option \<times> 'w state" where
  "GetReparseTag os sFileName pTag s =
     (if pTag = None then (FALSE, pTag, s)
      else if ReparsePointExists os sFileName s = 0 then (FALSE, pTag, s)
      else
        let (hSrc, s1) = OpenFileForRead os sFileName
              (GetFileAttributes os (world s) sFileName AND FILE_ATTRIBUTE_DIRECTORY) s
        in if hSrc = INVALID_HANDLE_VALUE then (FALSE, pTag, s1)
           else
             let (rd, s2) = GlobalAlloc MAXIMUM_REPARSE_DATA_BUFFER_SIZE s1;
                 ((r, out), s3) = call_DeviceIoControl os hSrc FSCTL_GET_REPARSE_POINT
                                    None 0 MAXIMUM_REPARSE_DATA_BUFFER_SIZE s2;
                 rd1 = rd\<lparr>mem := store_bytes 0 out (mem rd)\<rparr>;
                 (bResult, pTag1, s4) =
                   (if r \<noteq> 0
                    then (TRUE, Some (get_ReparseTag (mem rd1)),
                          s3\<lparr>trace := trace s3 @ [EvStore (to_le 4 (get_ReparseTag (mem rd1)))]\<rparr>)
                    else (FALSE, pTag, s3));
                 s5 = call_CloseHandle os hSrc s4;
                 s6 = GlobalFree rd1 s5
             in (bResult, pTag1, s6))"

text \<open>
  The locals \<open>gu\<close> and \<open>dwReparseTag\<close> of \<open>DeleteReparsePoint\<close> are not initialised by the
  source: \<open>gu0\<close> and \<open>tag0\<close> are whatever the stack holds on entry.
\<close>
definition DeleteReparsePoint ::
  "'w winapi \<Rightarrow> LPCWSTR \<Rightarrow> GUID \<Rightarrow> DWORD \<Rightarrow> 'w state \<Rightarrow> BOOL \<times> 'w state" where
  "DeleteReparsePoint os sFileName gu0 tag0 s =
     (if ReparsePointExists os sFileName s = 0 then (FALSE, s)
      else
        let (r1, pgu, s1) = GetReparseGUID os sFileName (Some gu0) s;
            gu = (case pgu of None \<Rightarrow> gu0 | Some g \<Rightarrow> g)
        in if r1 = 0 then (FALSE, s1)
           else
             let (rd, s2) = GlobalAlloc REPARSE_GUID_DATA_BUFFER_HEADER_SIZE s1;
                 (r2, ptag, s3) = GetReparseTag os sFileName (Some tag0) s2;
                 dwReparseTag = (case ptag of None \<Rightarrow> tag0 | Some t \<Rightarrow> t)
             in if r2 = 0 then (FALSE, GlobalFree rd s3)
                else
                  let rd1 = rd\<lparr>mem := set_ReparseTag dwReparseTag (mem rd)\<rparr>;
                      (hDel, s4) = OpenFileForWrite os sFileName
                         (GetFileAttributes os (world s3) sFileName AND FILE_ATTRIBUTE_DIRECTORY) s3
                  in if hDel = INVALID_HANDLE_VALUE then (FALSE, s4)
                     else
                       let ((b1, _), s5) = call_DeviceIoControl os hDel FSCTL_DELETE_REPARSE_POINT
                              (Some (mem rd1)) REPARSE_GUID_DATA_BUFFER_HEADER_SIZE 0 s4;
                           (bResult, rd2, s6) =
                             (if b1 = 0
                              then let rd2 = rd1\<lparr>mem := set_ReparseGuid gu (mem rd1)\<rparr>;
                                       ((b2, _), s6) = call_DeviceIoControl os hDel
                                          FSCTL_DELETE_REPARSE_POINT (Some (mem rd2))
                                          REPARSE_GUID_DATA_BUFFER_HEADER_SIZE 0 s5
                                   in (b2, rd2, s6)
                              else (b1, rd1, s5));
                           s7 = GlobalFree rd2 s6;
                           s8 = call_CloseHandle os hDel s7
                       in (bResult, s8))"

text \<open>
  \<open>pBuffer\<close> is \<open>None\<close> when NULL, otherwise the bytes it points to (at least \<open>uBufSize\<close>
  of them, by the caller's contract: \<open>memcpy\<close> reads \<open>uBufSize\<close> bytes).
  \<open>ReparseDataLength\<close> is a WORD: the assignment truncates \<open>uBufSize\<close> to 16 bits.
\<close>
definition CreateCustomReparsePoint ::
  "'w winapi \<Rightarrow> LPCWSTR \<Rightarrow> BYTE list option \<Rightarrow> UINT \<Rightarrow> GUID \<Rightarrow> DWORD \<Rightarrow> 'w state
     \<Rightarrow> BOOL \<times> 'w state" where
  "CreateCustomReparsePoint os sFileName pBuffer uBufSize uGuid uReparseTag s =
     (if pBuffer = None \<or> uBufSize = 0 \<or> unat uBufSize > MAXIMUM_REPARSE_DATA_BUFFER_SIZE
      then (FALSE, s)
      else
        let (hHandle, s1) = OpenFileForWrite os sFileName
              (GetFileAttributes os (world s) sFileName AND FILE_ATTRIBUTE_DIRECTORY) s
        in if INVALID_HANDLE_VALUE = hHandle then (FALSE, s1)
           else
             let (rd, s2) = GlobalAlloc MAXIMUM_REPARSE_DATA_BUFFER_SIZE s1;
                 m1 = set_ReparseTag uReparseTag (mem rd);
                 m2 = set_ReparseDataLength (ucast uBufSize) m1;
                 m3 = set_Reserved 0 m2;
                 m4 = set_ReparseGuid uGuid m3;
                 m5 = store_bytes off_DataBuffer
                        (take (unat uBufSize) (case pBuffer of None \<Rightarrow> [] | Some bs \<Rightarrow> bs)) m4;
                 rd1 = rd\<lparr>mem := m5\<rparr>;
                 ((r, _), s3) = call_DeviceIoControl os hHandle FSCTL_SET_REPARSE_POINT
                    (Some (mem rd1))
                    (unat (get_ReparseDataLength (mem rd1)) + REPARSE_GUID_DATA_BUFFER_HEADER_SIZE)
                    0 s2;
                 bResult = (if r \<noteq> 0 then TRUE else FALSE);
                 s4 = call_CloseHandle os hHandle s3;
                 s5 = GlobalFree rd1 s4
             in (bResult, s5))"

text \<open>The buffer of a query after the driver has written its answer.\<close>
definition answer :: "BYTE list \<Rightarrow> BYTE list" where
  "answer out = store_bytes 0 out (replicate MAXIMUM_REPARSE_DATA_BUFFER_SIZE 0)"

section \<open>Reading the event log\<close>

text \<open>The events a run added to the log: every operation only appends.\<close>
definition events_of :: "'w state \<Rightarrow> 'w state \<Rightarrow> event list" where
  "events_of s s' = drop (length (trace s)) (trace s')"


fun is_request :: "fsctl \<Rightarrow> event \<Rightarrow> bool" where
  "is_request c (EvDeviceIoControl h c' i n m r) = (c = c')"
| "is_request c _ = False"

fun is_open :: "event \<Rightarrow> bool" where
  "is_open (EvCreateFile p a sh fl h) = True"
| "is_open _ = False"

fun is_store :: "event \<Rightarrow> bool" where
  "is_store (EvStore bs) = True"
| "is_store _ = False"

fun is_alloc :: "event \<Rightarrow> bool" where
  "is_alloc (EvGlobalAlloc i n) = True"
| "is_alloc _ = False"

text \<open>The byte count and the input bytes of a control request.\<close>
fun request_size :: "event \<Rightarrow> nat" where
  "request_size (EvDeviceIoControl h c i n m r) = n"
| "request_size _ = 0"

fun request_input :: "event \<Rightarrow> BYTE list" where
  "request_input (EvDeviceIoControl h c i n m r) = i"
| "request_input _ = []"

text \<open>The buffer \<open>CreateCustomReparsePoint\<close> hands to the driver.\<close>
definition create_buffer :: "DWORD \<Rightarrow> UINT \<Rightarrow> GUID \<Rightarrow> BYTE list \<Rightarrow> BYTE list" where
  "create_buffer uReparseTag uBufSize uGuid bs =
     store_bytes off_DataBuffer (take (unat uBufSize) bs)
       (set_ReparseGuid uGuid (set_Reserved 0 (set_ReparseDataLength (ucast uBufSize)
          (set_ReparseTag uReparseTag (replicate MAXIMUM_REPARSE_DATA_BUFFER_SIZE 0)))))"

text \<open>
  The two queries as \<open>DeleteReparsePoint\<close> runs them: the GUID query on entry, the tag
  query after it and after the allocation of the delete buffer.
\<close>
definition Delete_guid_query ::
  "'w winapi \<Rightarrow> LPCWSTR \<Rightarrow> GUID \<Rightarrow> 'w state \<Rightarrow> BOOL \<times> GUID option \<times> 'w state" where
  "Delete_guid_query os p gu0 s = GetReparseGUID os p (Some gu0) s"

definition Delete_tag_query ::
  "'w winapi \<Rightarrow> LPCWSTR \<Rightarrow> GUID \<Rightarrow> DWORD \<Rightarrow> 'w state \<Rightarrow> BOOL \<times> DWORD option \<times> 'w state" where
  "Delete_tag_query os p gu0 tag0 s =
     GetReparseTag os p (Some tag0)
       (snd (GlobalAlloc REPARSE_GUID_DATA_BUFFER_HEADER_SIZE
          (snd (snd (Delete_guid_query os p gu0 s)))))"

text \<open>
  The open for writing as \<open>DeleteReparsePoint\<close> runs it, after both queries, and the
  delete buffer of its first attempt: 24 zero bytes with the tag stored.
\<close>
definition Delete_open ::
  "'w winapi \<Rightarrow> LPCWSTR \<Rightarrow> GUID \<Rightarrow> DWORD \<Rightarrow> 'w state \<Rightarrow> HANDLE \<times> 'w state" where
  "Delete_open os p gu0 tag0 s =
     (let s3 = snd (snd (Delete_tag_query os p gu0 tag0 s))
      in OpenFileForWrite os p
           (GetFileAttributes os (world s3) p AND FILE_ATTRIBUTE_DIRECTORY) s3)"

definition delete_buffer :: "DWORD \<Rightarrow> BYTE list" where
  "delete_buffer tag = set_ReparseTag tag (replicate REPARSE_GUID_DATA_BUFFER_HEADER_SIZE 0)"

definition nodel :: "event list \<Rightarrow> bool" where
  "nodel evs = (filter (is_request FSCTL_DELETE_REPARSE_POINT) evs = [])"

text \<open>A process that holds no handle and no memory yet.\<close>
definition start :: "'w \<Rightarrow> 'w state" where
  "start w = \<lparr>world = w, handles = [], allocs = [], next_id = 0, trace = []\<rparr>"

section \<open>A small file system to run the library on\<close>

text \<open>
  An instance of the four entry points, used to run the operations on concrete inputs.
  A file has attribute flags, the reparse buffer stored with it (if any), and the
  access the caller is granted. \<open>GetFileAttributes\<close> answers \<open>INVALID_FILE_ATTRIBUTES\<close>
  for a path that does not exist, as Win32 documents. A directory opens only with
  \<open>FILE_FLAG_BACKUP_SEMANTICS\<close>. DELETE is accepted when tag and length field match and,
  for a tag that is not Microsoft's (bit 31 clear), the GUID matches as well.
\<close>

record nt_file =
  attributes :: DWORD
  reparse :: "BYTE list option"
  readable :: bool
  writable :: bool

record nt_world =
  files :: "(LPCWSTR \<times> nt_file) list"
  opened :: "(HANDLE \<times> LPCWSTR \<times> DWORD) list"
  next_handle :: HANDLE

definition upd_file ::
  "LPCWSTR \<Rightarrow> (nt_file \<Rightarrow> nt_file) \<Rightarrow> (LPCWSTR \<times> nt_file) list \<Rightarrow> (LPCWSTR \<times> nt_file) list" where
  "upd_file p g fs = map (\<lambda>(q, f). if q = p then (q, g f) else (q, f)) fs"

definition nt_GetFileAttributes :: "nt_world \<Rightarrow> LPCWSTR \<Rightarrow> DWORD" where
  "nt_GetFileAttributes w p =
     (case map_of (files w) p of None \<Rightarrow> INVALID_FILE_ATTRIBUTES | Some f \<Rightarrow> attributes f)"

definition nt_CreateFile ::
  "LPCWSTR \<Rightarrow> DWORD \<Rightarrow> DWORD \<Rightarrow> DWORD \<Rightarrow> nt_world \<Rightarrow> HANDLE \<times> nt_world" where
  "nt_CreateFile p access share flags w =
     (case map_of (files w) p of
        None \<Rightarrow> (INVALID_HANDLE_VALUE, w)
      | Some f \<Rightarrow>
          if (access = GENERIC_READ \<and> \<not> readable f) \<or> (access = GENERIC_WRITE \<and> \<not> writable f)
             \<or> (attributes f AND FILE_ATTRIBUTE_DIRECTORY \<noteq> 0
                 \<and> flags AND FILE_FLAG_BACKUP_SEMANTICS = 0)
          then (INVALID_HANDLE_VALUE, w)
          else (next_handle w,
                w\<lparr>opened := (next_handle w, p, access) # opened w,
                  next_handle := next_handle w + 4\<rparr>))"

definition nt_DeviceIoControl ::
  "HANDLE \<Rightarrow> fsctl \<Rightarrow> BYTE list \<Rightarrow> nat \<Rightarrow> nt_world \<Rightarrow> (BOOL \<times> BYTE list) \<times> nt_world" where
  "nt_DeviceIoControl h code input nOut w =
     (case map_of (opened w) h of
        None \<Rightarrow> ((0, []), w)
      | Some (p, access) \<Rightarrow>
          (case map_of (files w) p of
             None \<Rightarrow> ((0, []), w)
           | Some f \<Rightarrow>
               (case code of
                  FSCTL_GET_REPARSE_POINT \<Rightarrow>
                    (case reparse f of
                       None \<Rightarrow> ((0, []), w)
                     | Some buf \<Rightarrow> if length buf \<le> nOut then ((1, buf), w) else ((0, []), w))
                | FSCTL_SET_REPARSE_POINT \<Rightarrow>
                    if access = GENERIC_WRITE
                       \<and> REPARSE_GUID_DATA_BUFFER_HEADER_SIZE \<le> length input
                       \<and> length input \<le> MAXIMUM_REPARSE_DATA_BUFFER_SIZE
                    then ((1, []),
                          w\<lparr>files := upd_file p
                              (\<lambda>f. f\<lparr>attributes := attributes f OR FILE_ATTRIBUTE_REPARSE_POINT,
                                     reparse := Some input\<rparr>) (files w)\<rparr>)
                    else ((0, []), w)
                | FSCTL_DELETE_REPARSE_POINT \<Rightarrow>
                    (case reparse f of
                       None \<Rightarrow> ((0, []), w)
                     | Some buf \<Rightarrow>
                         if access = GENERIC_WRITE
                            \<and> length input = REPARSE_GUID_DATA_BUFFER_HEADER_SIZE
                            \<and> get_ReparseTag input = get_ReparseTag buf
                            \<and> get_ReparseDataLength input = 0
                            \<and> (bit (get_ReparseTag buf) 31
                                \<or> get_ReparseGuid input = get_ReparseGuid buf)
                         then ((1, []),
                               w\<lparr>files := upd_file p
                                   (\<lambda>f. f\<lparr>attributes :=
                                            attributes f AND NOT FILE_ATTRIBUTE_REPARSE_POINT,
                                          reparse := None\<rparr>) (files w)\<rparr>)
                         else ((0, []), w)))))"

definition nt_CloseHandle :: "HANDLE \<Rightarrow> nt_world \<Rightarrow> nt_world" where
  "nt_CloseHandle h w = w\<lparr>opened := filter (\<lambda>e. fst e \<noteq> h) (opened w)\<rparr>"

definition ntfs :: "nt_world winapi" where
  "ntfs = \<lparr>GetFileAttributes = nt_GetFileAttributes, CreateFile = nt_CreateFile,
           DeviceIoControl = nt_DeviceIoControl, CloseHandle = nt_CloseHandle\<rparr>"


text \<open>
  The scenario of the specification: a directory \<open>link\<close> with a custom reparse point, tag
  \<open>0x00000100\<close>, GUID \<open>{11111111-2222-3333-4444-555555555555}\<close> and payload
  \<open>AA BB CC\<close>; next to it a plain file, a directory whose reparse point is a symbolic
  link (a Microsoft tag), and a link that may be read but not written.
\<close>

definition guid1 :: GUID where
  "guid1 = [0x11, 0x11, 0x11, 0x11, 0x22, 0x22, 0x33, 0x33,
            0x44, 0x44, 0x55, 0x55, 0x55, 0x55, 0x55, 0x55]"

definition custom_buffer :: "BYTE list" where
  "custom_buffer = [0x00, 0x01, 0x00, 0x00, 0x03, 0x00, 0x00, 0x00] @ guid1 @ [0xAA, 0xBB, 0xCC]"

definition symlink_buffer :: "BYTE list" where
  "symlink_buffer = [0x0C, 0x00, 0x00, 0xA0, 0x14, 0x00, 0x00, 0x00,
                     0x00, 0x00, 0x04, 0x00, 0x04, 0x00, 0x04, 0x00,
                     0x00, 0x00, 0x00, 0x00, 0x61, 0x00, 0x62, 0x00,
                     0x61, 0x00, 0x62, 0x00]"

definition disk :: nt_world where
  "disk = \<lparr>files =
      [(''link'', \<lparr>attributes = 0x410, reparse = Some custom_buffer,
                   readable = True, writable = True\<rparr>),
       (''plain'', \<lparr>attributes = 0x20, reparse = None, readable = True, writable = True\<rparr>),
       (''symlink'', \<lparr>attributes = 0x410, reparse = Some symlink_buffer,
                      readable = True, writable = True\<rparr>),
       (''locked'', \<lparr>attributes = 0x410, reparse = Some custom_buffer,
                     readable = True, writable = False\<rparr>)],
    opened = [], next_handle = 4\<rparr>"

section \<open>Encoding and field access\<close>

lemma bit_of_le:
  "bit (of_le bs :: 'a::len word) k \<longleftrightarrow> k < LENGTH('a) \<and> k div 8 < length bs \<and> bit (bs ! (k div 8)) (k mod 8)"
proof (induction bs arbitrary: k)
  case Nil show ?case by simp
next
  case (Cons b bs)
  show ?case
  proof (cases "k < 8")
    case True
    then show ?thesis 
      by (auto simp add: bit_or_iff bit_push_bit_iff bit_ucast_iff Cons dest: bit_imp_le_length)
  next
    case False
    then obtain j where k: "k = j + 8" by (metis add.commute le_Suc_ex not_le)
    have nb: "bit b k = False" using False by (auto dest: bit_imp_le_length)
    have d: "(j + 8) div 8 = Suc (j div 8)" by simp
    from nb show ?thesis unfolding k
      by (auto simp add: bit_or_iff bit_push_bit_iff bit_ucast_iff Cons d dest: bit_imp_le_length)
  qed
qed

lemma of_le_to_le: 
  assumes "LENGTH('a::len) \<le> 8 * n"
  shows "of_le (to_le n (w::'a word)) = w"
proof (rule bit_word_eqI)
  fix k assume k: "k < LENGTH('a)"
  with assms have kn: "k div 8 < n" by (simp add: less_mult_imp_div_less mult.commute)
  have "8 * (k div 8) + k mod 8 = k" by simp
  with k kn show "bit (of_le (to_le n w) :: 'a word) k = bit w k"
    by (simp add: bit_of_le to_le_def bit_ucast_iff bit_drop_bit_eq)
qed

lemma length_to_le: "length (to_le n w) = n" by (simp add: to_le_def)

lemma of_le_zeros: "of_le (replicate n 0) = 0"
  by (induction n) auto

lemmas off_defs = off_ReparseTag_def off_ReparseDataLength_def off_Reserved_def
  off_ReparseGuid_def off_DataBuffer_def REPARSE_GUID_DATA_BUFFER_HEADER_SIZE_def
  REPARSE_DATA_BUFFER_HEADER_SIZE_def

lemmas field_defs = get_ReparseTag_def set_ReparseTag_def get_ReparseDataLength_def
  set_ReparseDataLength_def get_Reserved_def set_Reserved_def get_ReparseGuid_def
  set_ReparseGuid_def load_bytes_def store_bytes_def

text \<open>The delete buffer after the tag has been stored: 24 bytes, everything but the tag zero.\<close>

lemma delete_buffer_fields:
  fixes t :: DWORD
  defines "m \<equiv> set_ReparseTag t (replicate REPARSE_GUID_DATA_BUFFER_HEADER_SIZE 0)"
  shows "length m = 24" "get_ReparseTag m = t" "get_ReparseDataLength m = 0"
    "get_Reserved m = 0" "get_ReparseGuid m = replicate 16 0"
    "take REPARSE_GUID_DATA_BUFFER_HEADER_SIZE m = m"
  unfolding m_def
  by (simp_all add: field_defs off_defs length_to_le of_le_to_le of_le_zeros)

lemma guid_buffer_fields:
  fixes t :: DWORD
  assumes "length g = 16"
  defines "m \<equiv> set_ReparseGuid g (set_ReparseTag t (replicate REPARSE_GUID_DATA_BUFFER_HEADER_SIZE 0))"
  shows "length m = 24" "get_ReparseTag m = t" "get_ReparseDataLength m = 0"
    "get_Reserved m = 0" "get_ReparseGuid m = g"
    "take REPARSE_GUID_DATA_BUFFER_HEADER_SIZE m = m"
  unfolding m_def using assms(1)
  by (simp_all add: field_defs off_defs length_to_le of_le_to_le of_le_zeros)

section \<open>What each call does to the process state\<close>

lemma GlobalAlloc_run:
  assumes "GlobalAlloc n s = (rd, s')"
  shows "trace s' = trace s @ [EvGlobalAlloc (next_id s) n]" "mem rd = replicate n 0"
    "hid rd = next_id s" "world s' = world s" "handles s' = handles s"
    "allocs s' = (next_id s, n) # allocs s" "next_id s' = Suc (next_id s)"
  using assms by (auto simp: GlobalAlloc_def)

lemma GlobalFree_run:
  "trace (GlobalFree rd s) = trace s @ [EvGlobalFree (hid rd)]"
  "world (GlobalFree rd s) = world s" "handles (GlobalFree rd s) = handles s"
  "allocs (GlobalFree rd s) = filter (\<lambda>b. fst b \<noteq> hid rd) (allocs s)"
  "next_id (GlobalFree rd s) = next_id s"
  by (simp_all add: GlobalFree_def)

lemma GlobalFree_hid: "GlobalFree (rd\<lparr>mem := m\<rparr>) s = GlobalFree rd s"
  by (simp add: GlobalFree_def)

lemma call_CloseHandle_run:
  "trace (call_CloseHandle os h s) = trace s @ [EvCloseHandle h]"
  "handles (call_CloseHandle os h s) = remove1 h (handles s)"
  "allocs (call_CloseHandle os h s) = allocs s"
  "next_id (call_CloseHandle os h s) = next_id s"
  by (simp_all add: call_CloseHandle_def)

lemma call_DeviceIoControl_run:
  assumes "call_DeviceIoControl os h c lpIn n k s = ((r, out), s')"
  shows "trace s' = trace s @
           [EvDeviceIoControl h c (case lpIn of None \<Rightarrow> [] | Some m \<Rightarrow> take n m) n k r]"
    "handles s' = handles s" "allocs s' = allocs s" "next_id s' = next_id s"
    "length out \<le> k"
  using assms by (auto simp: call_DeviceIoControl_def Let_def split: prod.splits)

lemma OpenFileForWrite_run:
  assumes "OpenFileForWrite os p b s = (h, s')"
  shows "\<exists>fl. trace s' = trace s @ [EvCreateFile p GENERIC_WRITE (FILE_SHARE_READ OR FILE_SHARE_WRITE) fl h]"
    "handles s' = (if h = INVALID_HANDLE_VALUE then handles s else h # handles s)"
    "allocs s' = allocs s" "next_id s' = next_id s"
  using assms by (auto simp: OpenFileForWrite_def call_CreateFile_def Let_def split: prod.splits)

lemma OpenFileForRead_run:
  assumes "OpenFileForRead os p b s = (h, s')"
  shows "\<exists>fl. trace s' = trace s @ [EvCreateFile p GENERIC_READ FILE_SHARE_READ fl h]"
    "handles s' = (if h = INVALID_HANDLE_VALUE then handles s else h # handles s)"
    "allocs s' = allocs s" "next_id s' = next_id s"
  using assms by (auto simp: OpenFileForRead_def call_CreateFile_def Let_def split: prod.splits)

lemma GetReparseGUID_unfold:
  assumes o: "OpenFileForRead os p
               (GetFileAttributes os (world s) p AND FILE_ATTRIBUTE_DIRECTORY) s = (hSrc, s1)"
    and a: "GlobalAlloc MAXIMUM_REPARSE_DATA_BUFFER_SIZE s1 = (rd, s2)"
    and d: "call_DeviceIoControl os hSrc FSCTL_GET_REPARSE_POINT None 0
               MAXIMUM_REPARSE_DATA_BUFFER_SIZE s2 = ((r, out), s3)"
  shows "GetReparseGUID os p pGuid s =
     (if pGuid = None \<or> ReparsePointExists os p s = 0 then (FALSE, pGuid, s)
      else if hSrc = INVALID_HANDLE_VALUE then (FALSE, pGuid, s1)
      else if r \<noteq> 0
        then (TRUE, Some (get_ReparseGuid (answer out)),
              GlobalFree rd (call_CloseHandle os hSrc
                (s3\<lparr>trace := trace s3 @ [EvStore (get_ReparseGuid (answer out))]\<rparr>)))
        else (FALSE, pGuid, GlobalFree rd (call_CloseHandle os hSrc s3)))"
proof -
  have rd: "mem rd = replicate MAXIMUM_REPARSE_DATA_BUFFER_SIZE 0"
    using GlobalAlloc_run(2)[OF a] .
  show ?thesis
    by (simp add: GetReparseGUID_def o a d Let_def GlobalFree_hid rd answer_def)
qed

lemma GetReparseTag_unfold:
  assumes o: "OpenFileForRead os p
               (GetFileAttributes os (world s) p AND FILE_ATTRIBUTE_DIRECTORY) s = (hSrc, s1)"
    and a: "GlobalAlloc MAXIMUM_REPARSE_DATA_BUFFER_SIZE s1 = (rd, s2)"
    and d: "call_DeviceIoControl os hSrc FSCTL_GET_REPARSE_POINT None 0
               MAXIMUM_REPARSE_DATA_BUFFER_SIZE s2 = ((r, out), s3)"
  shows "GetReparseTag os p pTag s =
     (if pTag = None \<or> ReparsePointExists os p s = 0 then (FALSE, pTag, s)
      else if hSrc = INVALID_HANDLE_VALUE then (FALSE, pTag, s1)
      else if r \<noteq> 0
        then (TRUE, Some (get_ReparseTag (answer out)),
              GlobalFree rd (call_CloseHandle os hSrc
                (s3\<lparr>trace := trace s3 @ [EvStore (to_le 4 (get_ReparseTag (answer out)))]\<rparr>)))
        else (FALSE, pTag, GlobalFree rd (call_CloseHandle os hSrc s3)))"
proof -
  have rd: "mem rd = replicate MAXIMUM_REPARSE_DATA_BUFFER_SIZE 0"
    using GlobalAlloc_run(2)[OF a] .
  show ?thesis
    by (simp add: GetReparseTag_def o a d Let_def GlobalFree_hid rd answer_def)
qed

lemma length_answer: "length out \<le> MAXIMUM_REPARSE_DATA_BUFFER_SIZE \<Longrightarrow>
   length (answer out) = MAXIMUM_REPARSE_DATA_BUFFER_SIZE"
  by (simp add: answer_def store_bytes_def)

lemma length_get_ReparseGuid: "24 \<le> length m \<Longrightarrow> length (get_ReparseGuid m) = 16"
  by (simp add: get_ReparseGuid_def load_bytes_def off_defs)

lemma trace_update_simps:
  "world (s\<lparr>trace := t\<rparr>) = world s" "handles (s\<lparr>trace := t\<rparr>) = handles s"
  "allocs (s\<lparr>trace := t\<rparr>) = allocs s" "next_id (s\<lparr>trace := t\<rparr>) = next_id s"
  by simp_all

text \<open>What a query adds to the log, in each of its four outcomes.\<close>
lemma GetReparseGUID_summary:
  obtains
    (early) "pGuid = None \<or> ReparsePointExists os p s = 0"
      "GetReparseGUID os p pGuid s = (FALSE, pGuid, s)"
  | (noopen) fl s' where "GetReparseGUID os p pGuid s = (FALSE, pGuid, s')"
      "trace s' = trace s @ [EvCreateFile p GENERIC_READ FILE_SHARE_READ fl INVALID_HANDLE_VALUE]"
      "handles s' = handles s" "allocs s' = allocs s" "next_id s' = next_id s"
  | (rejected) fl h s' where "GetReparseGUID os p pGuid s = (FALSE, pGuid, s')"
      "trace s' = trace s @ [EvCreateFile p GENERIC_READ FILE_SHARE_READ fl h,
         EvGlobalAlloc (next_id s) MAXIMUM_REPARSE_DATA_BUFFER_SIZE,
         EvDeviceIoControl h FSCTL_GET_REPARSE_POINT [] 0 MAXIMUM_REPARSE_DATA_BUFFER_SIZE 0,
         EvCloseHandle h, EvGlobalFree (next_id s)]"
      "handles s' = handles s"
      "allocs s' = filter (\<lambda>b. fst b \<noteq> next_id s) (allocs s)" "next_id s' = Suc (next_id s)"
  | (accepted) fl h r g s' where "GetReparseGUID os p pGuid s = (TRUE, Some g, s')"
      "r \<noteq> 0" "length g = 16"
      "trace s' = trace s @ [EvCreateFile p GENERIC_READ FILE_SHARE_READ fl h,
         EvGlobalAlloc (next_id s) MAXIMUM_REPARSE_DATA_BUFFER_SIZE,
         EvDeviceIoControl h FSCTL_GET_REPARSE_POINT [] 0 MAXIMUM_REPARSE_DATA_BUFFER_SIZE r,
         EvStore g, EvCloseHandle h, EvGlobalFree (next_id s)]"
      "handles s' = handles s"
      "allocs s' = filter (\<lambda>b. fst b \<noteq> next_id s) (allocs s)" "next_id s' = Suc (next_id s)"
proof -
  obtain hSrc s1 where o: "OpenFileForRead os p
      (GetFileAttributes os (world s) p AND FILE_ATTRIBUTE_DIRECTORY) s = (hSrc, s1)"
    by (metis surj_pair)
  obtain rd s2 where a: "GlobalAlloc MAXIMUM_REPARSE_DATA_BUFFER_SIZE s1 = (rd, s2)"
    by (metis surj_pair)
  obtain r out s3 where d: "call_DeviceIoControl os hSrc FSCTL_GET_REPARSE_POINT None 0
      MAXIMUM_REPARSE_DATA_BUFFER_SIZE s2 = ((r, out), s3)"
    by (metis surj_pair)
  note u = GetReparseGUID_unfold[OF o a d, of pGuid]
  note ro = OpenFileForRead_run[OF o] and ra = GlobalAlloc_run[OF a]
    and rd = call_DeviceIoControl_run[OF d]
  from ro(1) obtain fl where
    fl: "trace s1 = trace s @ [EvCreateFile p GENERIC_READ FILE_SHARE_READ fl hSrc]" by blast
  have lg: "length (get_ReparseGuid (answer out)) = 16"
    using rd(5) by (simp add: length_get_ReparseGuid length_answer MAXIMUM_REPARSE_DATA_BUFFER_SIZE_def)
  consider "pGuid = None \<or> ReparsePointExists os p s = 0"
    | "\<not> (pGuid = None \<or> ReparsePointExists os p s = 0)" "hSrc = INVALID_HANDLE_VALUE"
    | "\<not> (pGuid = None \<or> ReparsePointExists os p s = 0)" "hSrc \<noteq> INVALID_HANDLE_VALUE" "r = 0"
    | "\<not> (pGuid = None \<or> ReparsePointExists os p s = 0)" "hSrc \<noteq> INVALID_HANDLE_VALUE" "r \<noteq> 0"
    by blast
  then show thesis
  proof cases
    case 1
    then show ?thesis using early u by auto
  next
    case 2
    have e: "GetReparseGUID os p pGuid s = (FALSE, pGuid, s1)" unfolding u using 2 by auto
    have t: "trace s1 = trace s @ [EvCreateFile p GENERIC_READ FILE_SHARE_READ fl INVALID_HANDLE_VALUE]"
      using fl 2(2) by simp
    show ?thesis
      by (rule noopen[OF e t]) (simp_all add: ro 2(2))
  next
    case 3
    have e: "GetReparseGUID os p pGuid s = (FALSE, pGuid, GlobalFree rd (call_CloseHandle os hSrc s3))"
      unfolding u using 3 by auto
    show ?thesis
      by (rule rejected[OF e, of fl hSrc])
         (simp_all add: GlobalFree_run call_CloseHandle_run fl ro ra rd 3)
  next
    case 4
    have e: "GetReparseGUID os p pGuid s = (TRUE, Some (get_ReparseGuid (answer out)),
       GlobalFree rd (call_CloseHandle os hSrc
                (s3\<lparr>trace := trace s3 @ [EvStore (get_ReparseGuid (answer out))]\<rparr>)))"
      unfolding u using 4 by auto
    show ?thesis
      by (rule accepted[OF e 4(3) lg, of fl hSrc])
         (simp_all add: GlobalFree_run call_CloseHandle_run fl ro ra rd 4)
  qed
qed

lemma GetReparseTag_summary:
  obtains
    (early) "pTag = None \<or> ReparsePointExists os p s = 0"
      "GetReparseTag os p pTag s = (FALSE, pTag, s)"
  | (noopen) fl s' where "GetReparseTag os p pTag s = (FALSE, pTag, s')"
      "trace s' = trace s @ [EvCreateFile p GENERIC_READ FILE_SHARE_READ fl INVALID_HANDLE_VALUE]"
      "handles s' = handles s" "allocs s' = allocs s" "next_id s' = next_id s"
  | (rejected) fl h s' where "GetReparseTag os p pTag s = (FALSE, pTag, s')"
      "trace s' = trace s @ [EvCreateFile p GENERIC_READ FILE_SHARE_READ fl h,
         EvGlobalAlloc (next_id s) MAXIMUM_REPARSE_DATA_BUFFER_SIZE,
         EvDeviceIoControl h FSCTL_GET_REPARSE_POINT [] 0 MAXIMUM_REPARSE_DATA_BUFFER_SIZE 0,
         EvCloseHandle h, EvGlobalFree (next_id s)]"
      "handles s' = handles s"
      "allocs s' = filter (\<lambda>b. fst b \<noteq> next_id s) (allocs s)" "next_id s' = Suc (next_id s)"
  | (accepted) fl h r g s' where "GetReparseTag os p pTag s = (TRUE, Some g, s')"
      "r \<noteq> 0"
      "trace s' = trace s @ [EvCreateFile p GENERIC_READ FILE_SHARE_READ fl h,
         EvGlobalAlloc (next_id s) MAXIMUM_REPARSE_DATA_BUFFER_SIZE,
         EvDeviceIoControl h FSCTL_GET_REPARSE_POINT [] 0 MAXIMUM_REPARSE_DATA_BUFFER_SIZE r,
         EvStore (to_le 4 g), EvCloseHandle h, EvGlobalFree (next_id s)]"
      "handles s' = handles s"
      "allocs s' = filter (\<lambda>b. fst b \<noteq> next_id s) (allocs s)" "next_id s' = Suc (next_id s)"
proof -
  obtain hSrc s1 where o: "OpenFileForRead os p
      (GetFileAttributes os (world s) p AND FILE_ATTRIBUTE_DIRECTORY) s = (hSrc, s1)"
    by (metis surj_pair)
  obtain rd s2 where a: "GlobalAlloc MAXIMUM_REPARSE_DATA_BUFFER_SIZE s1 = (rd, s2)"
    by (metis surj_pair)
  obtain r out s3 where d: "call_DeviceIoControl os hSrc FSCTL_GET_REPARSE_POINT None 0
      MAXIMUM_REPARSE_DATA_BUFFER_SIZE s2 = ((r, out), s3)"
    by (metis surj_pair)
  note u = GetReparseTag_unfold[OF o a d, of pTag]
  note ro = OpenFileForRead_run[OF o] and ra = GlobalAlloc_run[OF a]
    and rd = call_DeviceIoControl_run[OF d]
  from ro(1) obtain fl where
    fl: "trace s1 = trace s @ [EvCreateFile p GENERIC_READ FILE_SHARE_READ fl hSrc]" by blast
  consider "pTag = None \<or> ReparsePointExists os p s = 0"
    | "\<not> (pTag = None \<or> ReparsePointExists os p s = 0)" "hSrc = INVALID_HANDLE_VALUE"
    | "\<not> (pTag = None \<or> ReparsePointExists os p s = 0)" "hSrc \<noteq> INVALID_HANDLE_VALUE" "r = 0"
    | "\<not> (pTag = None \<or> ReparsePointExists os p s = 0)" "hSrc \<noteq> INVALID_HANDLE_VALUE" "r \<noteq> 0"
    by blast
  then show thesis
  proof cases
    case 1
    then show ?thesis using early u by auto
  next
    case 2
    have e: "GetReparseTag os p pTag s = (FALSE, pTag, s1)" unfolding u using 2 by auto
    have t: "trace s1 = trace s @ [EvCreateFile p GENERIC_READ FILE_SHARE_READ fl INVALID_HANDLE_VALUE]"
      using fl 2(2) by simp
    show ?thesis
      by (rule noopen[OF e t]) (simp_all add: ro 2(2))
  next
    case 3
    have e: "GetReparseTag os p pTag s = (FALSE, pTag, GlobalFree rd (call_CloseHandle os hSrc s3))"
      unfolding u using 3 by auto
    show ?thesis
      by (rule rejected[OF e, of fl hSrc])
         (simp_all add: GlobalFree_run call_CloseHandle_run fl ro ra rd 3)
  next
    case 4
    have e: "GetReparseTag os p pTag s = (TRUE, Some (get_ReparseTag (answer out)),
       GlobalFree rd (call_CloseHandle os hSrc
                (s3\<lparr>trace := trace s3 @ [EvStore (to_le 4 (get_ReparseTag (answer out)))]\<rparr>)))"
      unfolding u using 4 by auto
    show ?thesis
      by (rule accepted[OF e 4(3), of fl hSrc])
         (simp_all add: GlobalFree_run call_CloseHandle_run fl ro ra rd 4)
  qed
qed

lemma events_of_self: "events_of s s = []" by (simp add: events_of_def)

lemma events_of_append: "trace s' = trace s @ evs \<Longrightarrow> events_of s s' = evs"
  by (simp add: events_of_def)

lemma disk_attrs:
  "GetFileAttributes ntfs (world (start disk)) ''plain'' = 0x20"
  "GetFileAttributes ntfs (world (start disk)) ''link'' = 0x410"
  "GetFileAttributes ntfs (world (start disk)) ''symlink'' = 0x410"
  "GetFileAttributes ntfs (world (start disk)) ''locked'' = 0x410"
  "GetFileAttributes ntfs (world (start disk)) ''missing'' = INVALID_FILE_ATTRIBUTES"
  by (simp_all add: ntfs_def nt_GetFileAttributes_def start_def disk_def)

lemma DeleteReparsePoint_unfold:
  assumes g: "GetReparseGUID os p (Some gu0) s = (r1, Some gu, s1)"
    and a: "GlobalAlloc REPARSE_GUID_DATA_BUFFER_HEADER_SIZE s1 = (rd, s2)"
    and t: "GetReparseTag os p (Some tag0) s2 = (r2, Some tag, s3)"
    and o: "OpenFileForWrite os p (GetFileAttributes os (world s3) p AND FILE_ATTRIBUTE_DIRECTORY) s3 = (hDel, s4)"
    and d1: "call_DeviceIoControl os hDel FSCTL_DELETE_REPARSE_POINT
               (Some (set_ReparseTag tag (replicate REPARSE_GUID_DATA_BUFFER_HEADER_SIZE 0)))
               REPARSE_GUID_DATA_BUFFER_HEADER_SIZE 0 s4 = ((b1, o1), s5)"
    and d2: "call_DeviceIoControl os hDel FSCTL_DELETE_REPARSE_POINT
               (Some (set_ReparseGuid gu
                   (set_ReparseTag tag (replicate REPARSE_GUID_DATA_BUFFER_HEADER_SIZE 0))))
               REPARSE_GUID_DATA_BUFFER_HEADER_SIZE 0 s5 = ((b2, o2), s6)"
  shows "DeleteReparsePoint os p gu0 tag0 s =
     (if ReparsePointExists os p s = 0 then (FALSE, s)
      else if r1 = 0 then (FALSE, s1)
      else if r2 = 0 then (FALSE, GlobalFree rd s3)
      else if hDel = INVALID_HANDLE_VALUE then (FALSE, s4)
      else if b1 = 0 then (b2, call_CloseHandle os hDel (GlobalFree rd s6))
      else (b1, call_CloseHandle os hDel (GlobalFree rd s5)))"
proof -
  have rd: "mem rd = replicate REPARSE_GUID_DATA_BUFFER_HEADER_SIZE 0"
    using GlobalAlloc_run(2)[OF a] .
  show ?thesis
    by (simp add: DeleteReparsePoint_def g a t o Let_def GlobalFree_hid rd d1 d2)
qed


lemma GetReparseGUID_facts:
  "\<exists>evs g. trace (snd (snd (GetReparseGUID os p (Some g0) s))) = trace s @ evs
     \<and> filter (is_request FSCTL_DELETE_REPARSE_POINT) evs = []
     \<and> fst (snd (GetReparseGUID os p (Some g0) s)) = Some g
     \<and> (fst (GetReparseGUID os p (Some g0) s) \<noteq> 0 \<longrightarrow> length g = 16)
     \<and> handles (snd (snd (GetReparseGUID os p (Some g0) s))) = handles s"
proof (cases rule: GetReparseGUID_summary[of "Some g0" os p s])
  case early
  then show ?thesis by (simp add: FALSE_def)
next
  case (noopen fl s')
  then show ?thesis by (simp add: FALSE_def)
next
  case (rejected fl h s')
  then show ?thesis by (simp add: FALSE_def)
next
  case (accepted fl h r g s')
  then show ?thesis by simp
qed

lemma GetReparseTag_facts:
  "\<exists>evs t. trace (snd (snd (GetReparseTag os p (Some t0) s))) = trace s @ evs
     \<and> filter (is_request FSCTL_DELETE_REPARSE_POINT) evs = []
     \<and> fst (snd (GetReparseTag os p (Some t0) s)) = Some t
     \<and> handles (snd (snd (GetReparseTag os p (Some t0) s))) = handles s
     \<and> (\<forall>b. fst b < next_id s \<longrightarrow> b \<in> set (allocs s) \<longrightarrow>
           b \<in> set (allocs (snd (snd (GetReparseTag os p (Some t0) s)))))"
proof (cases rule: GetReparseTag_summary[of "Some t0" os p s])
  case early
  then show ?thesis by simp
next
  case (noopen fl s')
  then show ?thesis by simp
next
  case (rejected fl h s')
  then show ?thesis by simp
next
  case (accepted fl h r g s')
  then show ?thesis by simp
qed

lemma DeleteReparsePoint_summary:
  obtains
    (noattr) "ReparsePointExists os p s = 0" "DeleteReparsePoint os p gu0 tag0 s = (FALSE, s)"
  | (noguid) e1 s' where "fst (Delete_guid_query os p gu0 s) = 0"
      "DeleteReparsePoint os p gu0 tag0 s = (FALSE, s')"
      "trace s' = trace s @ e1" "nodel e1"
  | (notag) e1 e2 i s' where "fst (Delete_tag_query os p gu0 tag0 s) = 0"
      "DeleteReparsePoint os p gu0 tag0 s = (FALSE, s')"
      "trace s' = trace s @ e1 @ [EvGlobalAlloc i REPARSE_GUID_DATA_BUFFER_HEADER_SIZE] @ e2
                    @ [EvGlobalFree i]" "nodel e1" "nodel e2"
      "i = next_id (snd (snd (Delete_guid_query os p gu0 s)))"
  | (noopen) e1 e2 i fl s' where
      "ReparsePointExists os p s \<noteq> 0" "fst (Delete_guid_query os p gu0 s) \<noteq> 0"
      "fst (Delete_tag_query os p gu0 tag0 s) \<noteq> 0"
      "DeleteReparsePoint os p gu0 tag0 s = (FALSE, s')"
      "trace s' = trace s @ e1 @ [EvGlobalAlloc i REPARSE_GUID_DATA_BUFFER_HEADER_SIZE] @ e2
         @ [EvCreateFile p GENERIC_WRITE (FILE_SHARE_READ OR FILE_SHARE_WRITE) fl
              INVALID_HANDLE_VALUE]" "nodel e1" "nodel e2"
      "(i, REPARSE_GUID_DATA_BUFFER_HEADER_SIZE) \<in> set (allocs s')"
      "i = next_id (snd (snd (Delete_guid_query os p gu0 s)))"
      "fst (Delete_open os p gu0 tag0 s) = INVALID_HANDLE_VALUE"
  | (first) e1 e2 i fl h b tag s' where
      "ReparsePointExists os p s \<noteq> 0" "fst (Delete_guid_query os p gu0 s) \<noteq> 0"
      "fst (Delete_tag_query os p gu0 tag0 s) \<noteq> 0"
      "fst (snd (Delete_tag_query os p gu0 tag0 s)) = Some tag" "b \<noteq> 0"
      "DeleteReparsePoint os p gu0 tag0 s = (b, s')"
      "trace s' = trace s @ e1 @ [EvGlobalAlloc i REPARSE_GUID_DATA_BUFFER_HEADER_SIZE] @ e2
         @ [EvCreateFile p GENERIC_WRITE (FILE_SHARE_READ OR FILE_SHARE_WRITE) fl h,
            EvDeviceIoControl h FSCTL_DELETE_REPARSE_POINT
              (set_ReparseTag tag (replicate REPARSE_GUID_DATA_BUFFER_HEADER_SIZE 0))
              REPARSE_GUID_DATA_BUFFER_HEADER_SIZE 0 b,
            EvGlobalFree i, EvCloseHandle h]" "nodel e1" "nodel e2"
      "i = next_id (snd (snd (Delete_guid_query os p gu0 s)))"
      "fst (Delete_open os p gu0 tag0 s) = h" "h \<noteq> INVALID_HANDLE_VALUE"
  | (second) e1 e2 i fl h b tag gu s' where
      "ReparsePointExists os p s \<noteq> 0" "fst (Delete_guid_query os p gu0 s) \<noteq> 0"
      "fst (Delete_tag_query os p gu0 tag0 s) \<noteq> 0"
      "fst (snd (Delete_guid_query os p gu0 s)) = Some gu" "length gu = 16"
      "fst (snd (Delete_tag_query os p gu0 tag0 s)) = Some tag"
      "DeleteReparsePoint os p gu0 tag0 s = (b, s')"
      "trace s' = trace s @ e1 @ [EvGlobalAlloc i REPARSE_GUID_DATA_BUFFER_HEADER_SIZE] @ e2
         @ [EvCreateFile p GENERIC_WRITE (FILE_SHARE_READ OR FILE_SHARE_WRITE) fl h,
            EvDeviceIoControl h FSCTL_DELETE_REPARSE_POINT
              (set_ReparseTag tag (replicate REPARSE_GUID_DATA_BUFFER_HEADER_SIZE 0))
              REPARSE_GUID_DATA_BUFFER_HEADER_SIZE 0 0,
            EvDeviceIoControl h FSCTL_DELETE_REPARSE_POINT
              (set_ReparseGuid gu
                 (set_ReparseTag tag (replicate REPARSE_GUID_DATA_BUFFER_HEADER_SIZE 0)))
              REPARSE_GUID_DATA_BUFFER_HEADER_SIZE 0 b,
            EvGlobalFree i, EvCloseHandle h]" "nodel e1" "nodel e2"
      "i = next_id (snd (snd (Delete_guid_query os p gu0 s)))"
      "fst (Delete_open os p gu0 tag0 s) = h" "h \<noteq> INVALID_HANDLE_VALUE"
proof -
  obtain r1 pg s1 where g0: "GetReparseGUID os p (Some gu0) s = (r1, pg, s1)"
    by (metis surj_pair)
  obtain e1 gu where e1: "trace s1 = trace s @ e1" "nodel e1" and pg: "pg = Some gu"
    and lgu': "r1 \<noteq> 0 \<longrightarrow> length gu = 16"
    using GetReparseGUID_facts[of os p gu0 s] by (auto simp: g0 nodel_def)
  have lgu: "r1 \<noteq> 0 \<Longrightarrow> length gu = 16" using lgu' by simp
  note g = g0[unfolded pg]
  obtain rd s2 where a: "GlobalAlloc REPARSE_GUID_DATA_BUFFER_HEADER_SIZE s1 = (rd, s2)"
    by (metis surj_pair)
  note ra = GlobalAlloc_run[OF a]
  obtain r2 pt s3 where t0: "GetReparseTag os p (Some tag0) s2 = (r2, pt, s3)"
    by (metis surj_pair)
  obtain e2 tag where e2: "trace s3 = trace s2 @ e2" "nodel e2" and pt: "pt = Some tag"
    and keep': "\<forall>b. fst b < next_id s2 \<longrightarrow> b \<in> set (allocs s2) \<longrightarrow> b \<in> set (allocs s3)"
    using GetReparseTag_facts[of os p tag0 s2] by (auto simp: t0 nodel_def)
  have keep: "\<And>b. fst b < next_id s2 \<Longrightarrow> b \<in> set (allocs s2) \<Longrightarrow> b \<in> set (allocs s3)"
    using keep' by blast
  note t = t0[unfolded pt]
  obtain hDel s4 where o: "OpenFileForWrite os p
      (GetFileAttributes os (world s3) p AND FILE_ATTRIBUTE_DIRECTORY) s3 = (hDel, s4)"
    by (metis surj_pair)
  note ro = OpenFileForWrite_run[OF o]
  from ro(1) obtain fl where fl: "trace s4 = trace s3 @
      [EvCreateFile p GENERIC_WRITE (FILE_SHARE_READ OR FILE_SHARE_WRITE) fl hDel]" by blast
  obtain b1 o1 s5 where d1: "call_DeviceIoControl os hDel FSCTL_DELETE_REPARSE_POINT
               (Some (set_ReparseTag tag (replicate REPARSE_GUID_DATA_BUFFER_HEADER_SIZE 0)))
               REPARSE_GUID_DATA_BUFFER_HEADER_SIZE 0 s4 = ((b1, o1), s5)"
    by (metis surj_pair)
  obtain b2 o2 s6 where d2: "call_DeviceIoControl os hDel FSCTL_DELETE_REPARSE_POINT
               (Some (set_ReparseGuid gu
                   (set_ReparseTag tag (replicate REPARSE_GUID_DATA_BUFFER_HEADER_SIZE 0))))
               REPARSE_GUID_DATA_BUFFER_HEADER_SIZE 0 s5 = ((b2, o2), s6)"
    by (metis surj_pair)
  note r1 = call_DeviceIoControl_run[OF d1] and r2 = call_DeviceIoControl_run[OF d2]
  note u = DeleteReparsePoint_unfold[OF g a t o d1 d2]
  have G: "Delete_guid_query os p gu0 s = (r1, Some gu, s1)"
    by (simp add: Delete_guid_query_def g)
  have T: "Delete_tag_query os p gu0 tag0 s = (r2, Some tag, s3)"
    by (simp add: Delete_tag_query_def G a t)
  have D: "Delete_open os p gu0 tag0 s = (hDel, s4)"
    by (simp add: Delete_open_def T o)
  have tk1: "take REPARSE_GUID_DATA_BUFFER_HEADER_SIZE
       (set_ReparseTag tag (replicate REPARSE_GUID_DATA_BUFFER_HEADER_SIZE 0))
       = set_ReparseTag tag (replicate REPARSE_GUID_DATA_BUFFER_HEADER_SIZE 0)"
    by (rule delete_buffer_fields)
  have tk2: "r1 \<noteq> 0 \<Longrightarrow> take REPARSE_GUID_DATA_BUFFER_HEADER_SIZE
       (set_ReparseGuid gu (set_ReparseTag tag (replicate REPARSE_GUID_DATA_BUFFER_HEADER_SIZE 0)))
       = set_ReparseGuid gu (set_ReparseTag tag (replicate REPARSE_GUID_DATA_BUFFER_HEADER_SIZE 0))"
    by (rule guid_buffer_fields) (rule lgu)
  consider "ReparsePointExists os p s = 0"
    | "ReparsePointExists os p s \<noteq> 0" "r1 = 0"
    | "ReparsePointExists os p s \<noteq> 0" "r1 \<noteq> 0" "r2 = 0"
    | "ReparsePointExists os p s \<noteq> 0" "r1 \<noteq> 0" "r2 \<noteq> 0" "hDel = INVALID_HANDLE_VALUE"
    | "ReparsePointExists os p s \<noteq> 0" "r1 \<noteq> 0" "r2 \<noteq> 0" "hDel \<noteq> INVALID_HANDLE_VALUE" "b1 \<noteq> 0"
    | "ReparsePointExists os p s \<noteq> 0" "r1 \<noteq> 0" "r2 \<noteq> 0" "hDel \<noteq> INVALID_HANDLE_VALUE" "b1 = 0"
    by blast
  then show thesis
  proof cases
    case 1
    have e: "DeleteReparsePoint os p gu0 tag0 s = (FALSE, s)" unfolding u using 1 by auto
    show ?thesis by (rule noattr[OF 1 e])
  next
    case 2
    have e: "DeleteReparsePoint os p gu0 tag0 s = (FALSE, s1)" unfolding u using 2 by auto
    show ?thesis by (rule noguid[OF _ e e1]) (simp add: G 2)
  next
    case 3
    have e: "DeleteReparsePoint os p gu0 tag0 s = (FALSE, GlobalFree rd s3)"
      unfolding u using 3 by auto
    show ?thesis
      by (rule notag[OF _ e _ e1(2) e2(2), of "next_id s1"])
         (simp_all add: G T 3 GlobalFree_run e1 e2 ra)
  next
    case 4
    have e: "DeleteReparsePoint os p gu0 tag0 s = (FALSE, s4)" unfolding u using 4 by auto
    have m: "(next_id s1, REPARSE_GUID_DATA_BUFFER_HEADER_SIZE) \<in> set (allocs s4)"
      using keep[of "(next_id s1, REPARSE_GUID_DATA_BUFFER_HEADER_SIZE)"] by (simp add: ra ro)
    show ?thesis
      by (rule noopen[OF 4(1) _ _ e _ e1(2) e2(2) m, of fl])
         (simp_all add: G T D 4 e1 e2 ra fl)
  next
    case 5
    have e: "DeleteReparsePoint os p gu0 tag0 s = (b1, call_CloseHandle os hDel (GlobalFree rd s5))"
      unfolding u using 5 by auto
    show ?thesis
      by (rule first[OF 5(1) _ _ _ 5(5) e _ e1(2) e2(2), of tag "next_id s1" fl hDel])
         (simp_all add: G T D 5 e1 e2 ra fl r1 tk1 GlobalFree_run call_CloseHandle_run)
  next
    case 6
    have e: "DeleteReparsePoint os p gu0 tag0 s = (b2, call_CloseHandle os hDel (GlobalFree rd s6))"
      unfolding u using 6 by auto
    show ?thesis
      by (rule second[OF 6(1) _ _ _ lgu[OF 6(2)] _ e _ e1(2) e2(2), of tag "next_id s1" fl hDel])
         (simp_all add: G T D 6 e1 e2 ra fl r1 r2 tk1 tk2 GlobalFree_run call_CloseHandle_run)
  qed
qed

lemma call_DeviceIoControl_eq:
  assumes "DeviceIoControl os h c (take n m) k (world s) = ((r, out), w)"
  shows "call_DeviceIoControl os h c (Some m) n k s =
     ((r, take k out), s\<lparr>world := w, trace := trace s @ [EvDeviceIoControl h c (take n m) n k r]\<rparr>)"
  using assms by (simp add: call_DeviceIoControl_def)

text \<open>The run of \<open>DeleteReparsePoint\<close> once the write handle is open, by the driver's answers.\<close>
lemma DeleteReparsePoint_attempts:
  assumes rp: "ReparsePointExists os p s \<noteq> 0"
    and G: "Delete_guid_query os p gu0 s = (r1, Some gu, s1)" and r1: "r1 \<noteq> 0"
    and T: "Delete_tag_query os p gu0 tag0 s = (r2, Some tag, s3)" and r2: "r2 \<noteq> 0"
    and O: "Delete_open os p gu0 tag0 s = (h, s4)" and h: "h \<noteq> INVALID_HANDLE_VALUE"
    and d1: "DeviceIoControl os h FSCTL_DELETE_REPARSE_POINT (delete_buffer tag) 0 (world s4)
               = ((b1, o1), w5)"
    and d2: "DeviceIoControl os h FSCTL_DELETE_REPARSE_POINT
               (set_ReparseGuid gu (delete_buffer tag)) 0 w5 = ((b2, o2), w6)"
  shows "fst (DeleteReparsePoint os p gu0 tag0 s) = (if b1 \<noteq> 0 then b1 else b2)"
    and "filter (is_request FSCTL_DELETE_REPARSE_POINT)
           (events_of s (snd (DeleteReparsePoint os p gu0 tag0 s)))
         = (if b1 \<noteq> 0
            then [EvDeviceIoControl h FSCTL_DELETE_REPARSE_POINT (delete_buffer tag)
                    REPARSE_GUID_DATA_BUFFER_HEADER_SIZE 0 b1]
            else [EvDeviceIoControl h FSCTL_DELETE_REPARSE_POINT (delete_buffer tag)
                    REPARSE_GUID_DATA_BUFFER_HEADER_SIZE 0 0,
                  EvDeviceIoControl h FSCTL_DELETE_REPARSE_POINT
                    (set_ReparseGuid gu (delete_buffer tag))
                    REPARSE_GUID_DATA_BUFFER_HEADER_SIZE 0 b2])"
proof -
  have g: "GetReparseGUID os p (Some gu0) s = (r1, Some gu, s1)"
    using G by (simp add: Delete_guid_query_def)
  obtain rd s2 where a: "GlobalAlloc REPARSE_GUID_DATA_BUFFER_HEADER_SIZE s1 = (rd, s2)"
    by (metis surj_pair)
  note ra = GlobalAlloc_run[OF a]
  have t: "GetReparseTag os p (Some tag0) s2 = (r2, Some tag, s3)"
    using T by (simp add: Delete_tag_query_def G a)
  have o: "OpenFileForWrite os p
      (GetFileAttributes os (world s3) p AND FILE_ATTRIBUTE_DIRECTORY) s3 = (h, s4)"
    using O by (simp add: Delete_open_def T)
  note ro = OpenFileForWrite_run[OF o]
  from ro(1) obtain fl where fl: "trace s4 = trace s3 @
      [EvCreateFile p GENERIC_WRITE (FILE_SHARE_READ OR FILE_SHARE_WRITE) fl h]" by blast
  obtain e1 where e1: "trace s1 = trace s @ e1" "nodel e1"
    and lgu': "r1 \<noteq> 0 \<longrightarrow> length gu = 16"
    using GetReparseGUID_facts[of os p gu0 s] by (auto simp: g nodel_def)
  have lgu: "length gu = 16" using lgu' r1 by simp
  obtain e2 where e2: "trace s3 = trace s2 @ e2" "nodel e2"
    using GetReparseTag_facts[of os p tag0 s2] by (auto simp: t nodel_def)
  have tk1: "take REPARSE_GUID_DATA_BUFFER_HEADER_SIZE (delete_buffer tag) = delete_buffer tag"
    unfolding delete_buffer_def by (rule delete_buffer_fields)
  have tk2: "take REPARSE_GUID_DATA_BUFFER_HEADER_SIZE (set_ReparseGuid gu (delete_buffer tag))
       = set_ReparseGuid gu (delete_buffer tag)"
    unfolding delete_buffer_def by (rule guid_buffer_fields) (rule lgu)
  let ?s5 = "s4\<lparr>world := w5, trace := trace s4 @ [EvDeviceIoControl h FSCTL_DELETE_REPARSE_POINT
      (delete_buffer tag) REPARSE_GUID_DATA_BUFFER_HEADER_SIZE 0 b1]\<rparr>"
  let ?s6 = "?s5\<lparr>world := w6, trace := trace ?s5 @ [EvDeviceIoControl h FSCTL_DELETE_REPARSE_POINT
      (set_ReparseGuid gu (delete_buffer tag)) REPARSE_GUID_DATA_BUFFER_HEADER_SIZE 0 b2]\<rparr>"
  have c1: "call_DeviceIoControl os h FSCTL_DELETE_REPARSE_POINT (Some (delete_buffer tag))
      REPARSE_GUID_DATA_BUFFER_HEADER_SIZE 0 s4 = ((b1, take 0 o1), ?s5)"
    using call_DeviceIoControl_eq[of os h FSCTL_DELETE_REPARSE_POINT
        REPARSE_GUID_DATA_BUFFER_HEADER_SIZE "delete_buffer tag" 0 s4 b1 o1 w5] d1
    by (simp only: tk1)
  have c2: "call_DeviceIoControl os h FSCTL_DELETE_REPARSE_POINT
      (Some (set_ReparseGuid gu (delete_buffer tag)))
      REPARSE_GUID_DATA_BUFFER_HEADER_SIZE 0 ?s5 = ((b2, take 0 o2), ?s6)"
    using call_DeviceIoControl_eq[of os h FSCTL_DELETE_REPARSE_POINT
        REPARSE_GUID_DATA_BUFFER_HEADER_SIZE "set_ReparseGuid gu (delete_buffer tag)" 0 ?s5 b2 o2 w6] d2
    by (simp only: tk2) simp
  note u = DeleteReparsePoint_unfold[OF g a t o c1[unfolded delete_buffer_def]
      c2[unfolded delete_buffer_def]]
  show "fst (DeleteReparsePoint os p gu0 tag0 s) = (if b1 \<noteq> 0 then b1 else b2)"
    unfolding u using rp r1 r2 h by auto
  show "filter (is_request FSCTL_DELETE_REPARSE_POINT)
           (events_of s (snd (DeleteReparsePoint os p gu0 tag0 s)))
         = (if b1 \<noteq> 0
            then [EvDeviceIoControl h FSCTL_DELETE_REPARSE_POINT (delete_buffer tag)
                    REPARSE_GUID_DATA_BUFFER_HEADER_SIZE 0 b1]
            else [EvDeviceIoControl h FSCTL_DELETE_REPARSE_POINT (delete_buffer tag)
                    REPARSE_GUID_DATA_BUFFER_HEADER_SIZE 0 0,
                  EvDeviceIoControl h FSCTL_DELETE_REPARSE_POINT
                    (set_ReparseGuid gu (delete_buffer tag))
                    REPARSE_GUID_DATA_BUFFER_HEADER_SIZE 0 b2])"
    unfolding u using rp r1 r2 h e1 e2
    by (auto simp: events_of_def nodel_def ra fl GlobalFree_run call_CloseHandle_run
          delete_buffer_def)
qed

section \<open>Running the library on the small file system\<close>

lemmas nt_defs = ntfs_def nt_GetFileAttributes_def nt_CreateFile_def nt_DeviceIoControl_def
  nt_CloseHandle_def start_def disk_def upd_file_def
lemmas const_defs = FALSE_def TRUE_def INVALID_HANDLE_VALUE_def INVALID_FILE_ATTRIBUTES_def
  FILE_ATTRIBUTE_DIRECTORY_def FILE_ATTRIBUTE_REPARSE_POINT_def GENERIC_READ_def GENERIC_WRITE_def
  FILE_SHARE_READ_def FILE_SHARE_WRITE_def FILE_FLAG_OPEN_REPARSE_POINT_def 
  FILE_FLAG_BACKUP_SEMANTICS_def MAXIMUM_REPARSE_DATA_BUFFER_SIZE_def
lemmas call_defs = call_CreateFile_def call_CloseHandle_def call_DeviceIoControl_def
  GlobalAlloc_def GlobalFree_def OpenFileForRead_def OpenFileForWrite_def
lemmas lib_defs = GetReparseGUID_def GetReparseTag_def DeleteReparsePoint_def
  CreateCustomReparsePoint_def ReparsePointExists_def call_defs


lemma to_le_4: "to_le 4 w = [ucast w, ucast (drop_bit 8 w), ucast (drop_bit 16 w), ucast (drop_bit 24 w)]"
  by (simp add: to_le_def upt_rec)

lemma to_le_2: "to_le 2 w = [ucast w, ucast (drop_bit 8 w)]"
  by (simp add: to_le_def upt_rec)

lemma replicate_small:
  "replicate 2 x = [x, x]" "replicate 4 x = [x, x, x, x]"
  "replicate 16 x = [x, x, x, x, x, x, x, x, x, x, x, x, x, x, x, x]"
  "replicate 20 x = [x, x, x, x, x, x, x, x, x, x, x, x, x, x, x, x, x, x, x, x]"
  "replicate 24 x = [x, x, x, x, x, x, x, x, x, x, x, x, x, x, x, x, x, x, x, x, x, x, x, x]"
  by (simp_all add: numeral_eq_Suc)

lemmas run_defs = to_le_4 to_le_2 replicate_small lib_defs nt_defs const_defs field_defs off_defs custom_buffer_def
  symlink_buffer_def guid1_def Let_def

lemma nodel_notin:
  "nodel evs \<Longrightarrow> EvDeviceIoControl h FSCTL_DELETE_REPARSE_POINT m n k b \<notin> set evs"
  by (auto simp: nodel_def filter_empty_conv)

lemma answer_long: "24 \<le> length out \<Longrightarrow> get_ReparseGuid (answer out) = take 16 (drop 8 out)"
  by (simp add: answer_def field_defs off_defs)

lemma create_buffer_length_field:
  "get_ReparseDataLength (create_buffer t n g bs) = ucast n"
proof -
  have "load_bytes off_ReparseDataLength 2 (create_buffer t n g bs) = to_le 2 (ucast n :: WORD)"
    by (simp add: create_buffer_def field_defs off_defs MAXIMUM_REPARSE_DATA_BUFFER_SIZE_def
          length_to_le)
  then show ?thesis by (simp add: get_ReparseDataLength_def of_le_to_le)
qed

lemma unat_ucast_small:
  "unat (n :: UINT) \<le> MAXIMUM_REPARSE_DATA_BUFFER_SIZE \<Longrightarrow> unat (ucast n :: WORD) = unat n"
proof -
  assume "unat n \<le> MAXIMUM_REPARSE_DATA_BUFFER_SIZE"
  then have "unat n < 2 ^ 16" by (simp add: MAXIMUM_REPARSE_DATA_BUFFER_SIZE_def)
  then show ?thesis by (simp add: unsigned_ucast_eq take_bit_nat_eq_self)
qed

lemma CreateCustomReparsePoint_unfold:
  assumes o: "OpenFileForWrite os p
               (GetFileAttributes os (world s) p AND FILE_ATTRIBUTE_DIRECTORY) s = (h, s1)"
    and a: "GlobalAlloc MAXIMUM_REPARSE_DATA_BUFFER_SIZE s1 = (rd, s2)"
    and d: "call_DeviceIoControl os h FSCTL_SET_REPARSE_POINT
              (Some (create_buffer uReparseTag uBufSize uGuid bs))
              (unat (ucast uBufSize :: WORD) + REPARSE_GUID_DATA_BUFFER_HEADER_SIZE) 0 s2
            = ((r, out), s3)"
  shows "CreateCustomReparsePoint os p (Some bs) uBufSize uGuid uReparseTag s =
     (if uBufSize = 0 \<or> unat uBufSize > MAXIMUM_REPARSE_DATA_BUFFER_SIZE then (FALSE, s)
      else if h = INVALID_HANDLE_VALUE then (FALSE, s1)
      else (if r \<noteq> 0 then TRUE else FALSE, GlobalFree rd (call_CloseHandle os h s3)))"
proof -
  have rd: "mem rd = replicate MAXIMUM_REPARSE_DATA_BUFFER_SIZE 0"
    using GlobalAlloc_run(2)[OF a] .
  note d' = d[unfolded create_buffer_def]
  have l: "get_ReparseDataLength (store_bytes off_DataBuffer (take (unat uBufSize) bs)
       (set_ReparseGuid uGuid (set_Reserved 0 (set_ReparseDataLength (ucast uBufSize)
          (set_ReparseTag uReparseTag (replicate MAXIMUM_REPARSE_DATA_BUFFER_SIZE 0))))))
       = ucast uBufSize"
    using create_buffer_length_field[of uReparseTag uBufSize uGuid bs]
    by (simp add: create_buffer_def)
  show ?thesis
    by (simp add: CreateCustomReparsePoint_def o a Let_def GlobalFree_hid rd l d')
qed


lemma CreateCustomReparsePoint_summary:
  obtains
    (invalid) "uBufSize = 0 \<or> unat uBufSize > MAXIMUM_REPARSE_DATA_BUFFER_SIZE"
      "CreateCustomReparsePoint os p (Some bs) uBufSize uGuid uReparseTag s = (FALSE, s)"
  | (noopen) fl s' where
      "uBufSize \<noteq> 0" "unat uBufSize \<le> MAXIMUM_REPARSE_DATA_BUFFER_SIZE"
      "fst (OpenFileForWrite os p
             (GetFileAttributes os (world s) p AND FILE_ATTRIBUTE_DIRECTORY) s)
         = INVALID_HANDLE_VALUE"
      "CreateCustomReparsePoint os p (Some bs) uBufSize uGuid uReparseTag s = (FALSE, s')"
      "trace s' = trace s @ [EvCreateFile p GENERIC_WRITE (FILE_SHARE_READ OR FILE_SHARE_WRITE)
                               fl INVALID_HANDLE_VALUE]"
      "handles s' = handles s" "allocs s' = allocs s"
  | (issued) fl h r s' where
      "uBufSize \<noteq> 0" "unat uBufSize \<le> MAXIMUM_REPARSE_DATA_BUFFER_SIZE"
      "fst (OpenFileForWrite os p
             (GetFileAttributes os (world s) p AND FILE_ATTRIBUTE_DIRECTORY) s) = h"
      "h \<noteq> INVALID_HANDLE_VALUE"
      "CreateCustomReparsePoint os p (Some bs) uBufSize uGuid uReparseTag s
         = (if r \<noteq> 0 then TRUE else FALSE, s')"
      "trace s' = trace s @
         [EvCreateFile p GENERIC_WRITE (FILE_SHARE_READ OR FILE_SHARE_WRITE) fl h,
          EvGlobalAlloc (next_id s) MAXIMUM_REPARSE_DATA_BUFFER_SIZE,
          EvDeviceIoControl h FSCTL_SET_REPARSE_POINT
            (take (unat uBufSize + REPARSE_GUID_DATA_BUFFER_HEADER_SIZE)
               (create_buffer uReparseTag uBufSize uGuid bs))
            (unat uBufSize + REPARSE_GUID_DATA_BUFFER_HEADER_SIZE) 0 r,
          EvCloseHandle h, EvGlobalFree (next_id s)]"
      "handles s' = handles s"
      "allocs s' = filter (\<lambda>b. fst b \<noteq> next_id s) (allocs s)"
proof -
  obtain h s1 where o: "OpenFileForWrite os p
      (GetFileAttributes os (world s) p AND FILE_ATTRIBUTE_DIRECTORY) s = (h, s1)"
    by (metis surj_pair)
  obtain rd s2 where a: "GlobalAlloc MAXIMUM_REPARSE_DATA_BUFFER_SIZE s1 = (rd, s2)"
    by (metis surj_pair)
  obtain r out s3 where d: "call_DeviceIoControl os h FSCTL_SET_REPARSE_POINT
              (Some (create_buffer uReparseTag uBufSize uGuid bs))
              (unat (ucast uBufSize :: WORD) + REPARSE_GUID_DATA_BUFFER_HEADER_SIZE) 0 s2
            = ((r, out), s3)"
    by (metis surj_pair)
  note u = CreateCustomReparsePoint_unfold[OF o a d]
  note ro = OpenFileForWrite_run[OF o] and ra = GlobalAlloc_run[OF a]
    and rd = call_DeviceIoControl_run[OF d]
  from ro(1) obtain fl where fl: "trace s1 = trace s @
      [EvCreateFile p GENERIC_WRITE (FILE_SHARE_READ OR FILE_SHARE_WRITE) fl h]" by blast
  consider "uBufSize = 0 \<or> unat uBufSize > MAXIMUM_REPARSE_DATA_BUFFER_SIZE"
    | "uBufSize \<noteq> 0" "unat uBufSize \<le> MAXIMUM_REPARSE_DATA_BUFFER_SIZE"
      "h = INVALID_HANDLE_VALUE"
    | "uBufSize \<noteq> 0" "unat uBufSize \<le> MAXIMUM_REPARSE_DATA_BUFFER_SIZE"
      "h \<noteq> INVALID_HANDLE_VALUE"
    by fastforce
  then show thesis
  proof cases
    case 1
    have e: "CreateCustomReparsePoint os p (Some bs) uBufSize uGuid uReparseTag s = (FALSE, s)"
      unfolding u using 1 by auto
    show ?thesis by (rule invalid[OF 1 e])
  next
    case 2
    have e: "CreateCustomReparsePoint os p (Some bs) uBufSize uGuid uReparseTag s = (FALSE, s1)"
      unfolding u using 2 by auto
    show ?thesis
      by (rule noopen[OF 2(1,2) _ e, of fl]) (simp_all add: o 2 fl ro)
  next
    case 3
    have e: "CreateCustomReparsePoint os p (Some bs) uBufSize uGuid uReparseTag s
         = (if r \<noteq> 0 then TRUE else FALSE, GlobalFree rd (call_CloseHandle os h s3))"
      unfolding u using 3 by auto
    show ?thesis
      by (rule issued[OF 3(1,2) _ 3(3) e, of fl])
         (simp_all add: o 3 fl ro ra rd GlobalFree_run call_CloseHandle_run unat_ucast_small)
  qed
qed


lemma open_plain_for_write:
  "fst (OpenFileForWrite ntfs ''plain''
         (GetFileAttributes ntfs (world (start disk)) ''plain'' AND FILE_ATTRIBUTE_DIRECTORY)
         (start disk)) = 4"
  by (simp add: run_defs)

lemma length_create_buffer:
  "length g = 16 \<Longrightarrow> unat n \<le> length bs \<Longrightarrow>
     length (create_buffer t n g bs) = max MAXIMUM_REPARSE_DATA_BUFFER_SIZE (24 + unat n)"
  by (simp add: create_buffer_def field_defs off_defs length_to_le
        MAXIMUM_REPARSE_DATA_BUFFER_SIZE_def)



lemma nodel_filter: "nodel evs \<Longrightarrow> filter (is_request FSCTL_DELETE_REPARSE_POINT) evs = []"
  by (simp add: nodel_def)

section \<open>The claims\<close>

text \<open>
  C1. For every path that does not carry the reparse-point attribute, paths that do not
  exist included, \<open>ReparsePointExists\<close> should return false. Run on a path that does not
  exist: \<open>GetFileAttributes\<close> answers \<open>INVALID_FILE_ATTRIBUTES\<close>, all bits set, the source
  masks it with \<open>FILE_ATTRIBUTE_REPARSE_POINT\<close> without testing for that answer, and the
  result is \<open>0x400\<close>, which is true.
\<close>
theorem C1_missing_path_reported_as_reparse_point:
  "GetFileAttributes ntfs (world (start disk)) ''missing'' = INVALID_FILE_ATTRIBUTES
   \<and> ReparsePointExists ntfs ''missing'' (start disk) = 0x400
   \<and> ReparsePointExists ntfs ''missing'' (start disk) \<noteq> FALSE"
  by (simp add: run_defs)

text \<open>
  C2. Every operation should release the handle and the buffer it acquired on every exit
  path; in particular \<open>DeleteReparsePoint\<close> should free its delete buffer when opening the
  path for writing fails. Run on a link that may be read but not written: both queries
  succeed, \<open>OpenFileForWrite\<close> fails, and the operation returns \<open>FALSE\<close> with the 24-byte
  delete buffer (block 1) still allocated and never freed.
\<close>
theorem C2_delete_leaks_buffer_when_open_fails:
  "fst (DeleteReparsePoint ntfs ''locked'' gu0 tag0 (start disk)) = FALSE
   \<and> allocs (start disk) = []
   \<and> allocs (snd (DeleteReparsePoint ntfs ''locked'' gu0 tag0 (start disk))) = [(1, 24)]
   \<and> filter (\<lambda>e. e = EvGlobalFree 1)
         (trace (snd (DeleteReparsePoint ntfs ''locked'' gu0 tag0 (start disk)))) = []"
  by (simp add: run_defs)

text \<open>
  C3. \<open>CreateCustomReparsePoint\<close> should fail, before opening any handle, when the payload
  is longer than the maximum transfer size minus the header with the GUID, which is 16360
  bytes. Run with a payload of 16361 bytes: the check of the source compares the length
  with \<open>MAXIMUM_REPARSE_DATA_BUFFER_SIZE\<close> itself, so the run opens the path, allocates the
  one block of 16384 bytes and issues a SET request of 16385 bytes from it: the copy of the
  payload has run one byte past the end of the block.
\<close>
theorem C3_oversized_payload_passes_check:
  "MAXIMUM_REPARSE_DATA_BUFFER_SIZE - REPARSE_GUID_DATA_BUFFER_HEADER_SIZE = 16360
   \<and> length (filter is_open (events_of (start disk)
        (snd (CreateCustomReparsePoint ntfs ''plain'' (Some (replicate 16361 7)) 16361
               guid1 0x100 (start disk))))) = 1
   \<and> filter is_alloc (events_of (start disk)
        (snd (CreateCustomReparsePoint ntfs ''plain'' (Some (replicate 16361 7)) 16361
               guid1 0x100 (start disk))))
       = [EvGlobalAlloc 0 16384]
   \<and> map request_size (filter (is_request FSCTL_SET_REPARSE_POINT) (events_of (start disk)
        (snd (CreateCustomReparsePoint ntfs ''plain'' (Some (replicate 16361 7)) 16361
               guid1 0x100 (start disk)))))
       = [16385]
   \<and> map (\<lambda>e. length (request_input e))
         (filter (is_request FSCTL_SET_REPARSE_POINT) (events_of (start disk)
        (snd (CreateCustomReparsePoint ntfs ''plain'' (Some (replicate 16361 7)) 16361
               guid1 0x100 (start disk)))))
       = [16385]"
proof (cases rule: CreateCustomReparsePoint_summary[of 16361 ntfs "''plain''" "replicate 16361 7"
        guid1 "0x100" "start disk"])
  case invalid
  then show ?thesis by (simp add: MAXIMUM_REPARSE_DATA_BUFFER_SIZE_def)
next
  case (noopen fl s')
  then show ?thesis by (simp add: open_plain_for_write INVALID_HANDLE_VALUE_def)
next
  case (issued fl h r s')
  have n: "next_id (start disk) = 0" by (simp add: start_def)
  have l: "length (create_buffer 0x100 16361 guid1 (replicate 16361 7)) = 16385"
    by (simp add: length_create_buffer guid1_def MAXIMUM_REPARSE_DATA_BUFFER_SIZE_def)
  from issued n l show ?thesis
    by (simp add: events_of_def off_defs MAXIMUM_REPARSE_DATA_BUFFER_SIZE_def)
qed

text \<open>
  C4. \<open>DeleteReparsePoint\<close> issues at most two DELETE requests. No request is issued, and
  the result is \<open>FALSE\<close>, when the attribute is missing, a query fails or the open for
  writing fails. Once the write handle is open, attempt 1 is issued on it with the delete
  buffer (the tag stored, GUID field zero). If the driver accepts it, it is the only request
  and its result is returned. If the driver rejects it, attempt 2 is issued on the same
  handle with the same buffer after the GUID retrieved by the GUID query has been stored in
  it, and the result of attempt 2 is returned as it is.
\<close>
theorem C4_delete_at_most_two_attempts:
  "let run = DeleteReparsePoint os p gu0 tag0 s;
       dels = filter (is_request FSCTL_DELETE_REPARSE_POINT) (events_of s (snd run))
   in ((dels = [] \<and> fst run = FALSE)
      \<or> (\<exists>h m b. dels = [EvDeviceIoControl h FSCTL_DELETE_REPARSE_POINT m
                             REPARSE_GUID_DATA_BUFFER_HEADER_SIZE 0 b]
            \<and> b \<noteq> 0 \<and> fst run = b \<and> get_ReparseGuid m = replicate 16 0)
      \<or> (\<exists>h m gu b. dels = [EvDeviceIoControl h FSCTL_DELETE_REPARSE_POINT m
                                REPARSE_GUID_DATA_BUFFER_HEADER_SIZE 0 0,
                              EvDeviceIoControl h FSCTL_DELETE_REPARSE_POINT (set_ReparseGuid gu m)
                                REPARSE_GUID_DATA_BUFFER_HEADER_SIZE 0 b]
            \<and> fst run = b \<and> get_ReparseGuid m = replicate 16 0
            \<and> fst (snd (Delete_guid_query os p gu0 s)) = Some gu))
    \<and> (ReparsePointExists os p s = 0 \<or> fst (Delete_guid_query os p gu0 s) = 0
         \<or> fst (Delete_tag_query os p gu0 tag0 s) = 0
         \<or> fst (Delete_open os p gu0 tag0 s) = INVALID_HANDLE_VALUE
        \<longrightarrow> dels = [] \<and> fst run = FALSE)
    \<and> (ReparsePointExists os p s \<noteq> 0 \<and> fst (Delete_guid_query os p gu0 s) \<noteq> 0
         \<and> fst (Delete_tag_query os p gu0 tag0 s) \<noteq> 0
         \<and> fst (snd (Delete_guid_query os p gu0 s)) = Some gu
         \<and> fst (snd (Delete_tag_query os p gu0 tag0 s)) = Some tag
         \<and> Delete_open os p gu0 tag0 s = (h, s4) \<and> h \<noteq> INVALID_HANDLE_VALUE
         \<and> DeviceIoControl os h FSCTL_DELETE_REPARSE_POINT (delete_buffer tag) 0 (world s4)
             = ((b1, o1), w5)
         \<and> DeviceIoControl os h FSCTL_DELETE_REPARSE_POINT
               (set_ReparseGuid gu (delete_buffer tag)) 0 w5 = ((b2, o2), w6)
        \<longrightarrow> (b1 \<noteq> 0 \<longrightarrow>
               dels = [EvDeviceIoControl h FSCTL_DELETE_REPARSE_POINT (delete_buffer tag)
                         REPARSE_GUID_DATA_BUFFER_HEADER_SIZE 0 b1]
               \<and> fst run = b1)
            \<and> (b1 = 0 \<longrightarrow>
               dels = [EvDeviceIoControl h FSCTL_DELETE_REPARSE_POINT (delete_buffer tag)
                         REPARSE_GUID_DATA_BUFFER_HEADER_SIZE 0 0,
                       EvDeviceIoControl h FSCTL_DELETE_REPARSE_POINT
                         (set_ReparseGuid gu (delete_buffer tag))
                         REPARSE_GUID_DATA_BUFFER_HEADER_SIZE 0 b2]
               \<and> fst run = b2))"
proof -
  let ?run = "DeleteReparsePoint os p gu0 tag0 s"
  let ?dels = "filter (is_request FSCTL_DELETE_REPARSE_POINT) (events_of s (snd ?run))"
  have shape: "(?dels = [] \<and> fst ?run = FALSE)
      \<or> (\<exists>h m b. ?dels = [EvDeviceIoControl h FSCTL_DELETE_REPARSE_POINT m
                             REPARSE_GUID_DATA_BUFFER_HEADER_SIZE 0 b]
            \<and> b \<noteq> 0 \<and> fst ?run = b \<and> get_ReparseGuid m = replicate 16 0)
      \<or> (\<exists>h m gu b. ?dels = [EvDeviceIoControl h FSCTL_DELETE_REPARSE_POINT m
                                REPARSE_GUID_DATA_BUFFER_HEADER_SIZE 0 0,
                              EvDeviceIoControl h FSCTL_DELETE_REPARSE_POINT (set_ReparseGuid gu m)
                                REPARSE_GUID_DATA_BUFFER_HEADER_SIZE 0 b]
            \<and> fst ?run = b \<and> get_ReparseGuid m = replicate 16 0
            \<and> fst (snd (Delete_guid_query os p gu0 s)) = Some gu)"
  proof (cases rule: DeleteReparsePoint_summary[of os p s gu0 tag0])
    case noattr
    then show ?thesis by (simp add: events_of_self)
  next
    case (noguid e1 s')
    then show ?thesis by (simp add: events_of_def nodel_def)
  next
    case (notag e1 e2 i s')
    then show ?thesis by (simp add: events_of_def nodel_def)
  next
    case (noopen e1 e2 i fl s')
    then show ?thesis by (simp add: events_of_def nodel_def)
  next
    case (first e1 e2 i fl h b tag s')
    then show ?thesis by (simp add: events_of_def nodel_def delete_buffer_fields)
  next
    case (second e1 e2 i fl h b tag gu s')
    then show ?thesis by (simp add: events_of_def nodel_def delete_buffer_fields)
  qed
  have none: "ReparsePointExists os p s = 0 \<or> fst (Delete_guid_query os p gu0 s) = 0
         \<or> fst (Delete_tag_query os p gu0 tag0 s) = 0
         \<or> fst (Delete_open os p gu0 tag0 s) = INVALID_HANDLE_VALUE
        \<longrightarrow> ?dels = [] \<and> fst ?run = FALSE"
  proof (cases rule: DeleteReparsePoint_summary[of os p s gu0 tag0])
    case noattr
    then show ?thesis by (simp add: events_of_self)
  next
    case (noguid e1 s')
    then show ?thesis by (simp add: events_of_def nodel_def)
  next
    case (notag e1 e2 i s')
    then show ?thesis by (simp add: events_of_def nodel_def)
  next
    case (noopen e1 e2 i fl s')
    then show ?thesis by (simp add: events_of_def nodel_def)
  next
    case (first e1 e2 i fl h b tag s')
    then show ?thesis by simp
  next
    case (second e1 e2 i fl h b tag gu s')
    then show ?thesis by simp
  qed
  have issued: "ReparsePointExists os p s \<noteq> 0 \<and> fst (Delete_guid_query os p gu0 s) \<noteq> 0
         \<and> fst (Delete_tag_query os p gu0 tag0 s) \<noteq> 0
         \<and> fst (snd (Delete_guid_query os p gu0 s)) = Some gu
         \<and> fst (snd (Delete_tag_query os p gu0 tag0 s)) = Some tag
         \<and> Delete_open os p gu0 tag0 s = (h, s4) \<and> h \<noteq> INVALID_HANDLE_VALUE
         \<and> DeviceIoControl os h FSCTL_DELETE_REPARSE_POINT (delete_buffer tag) 0 (world s4)
             = ((b1, o1), w5)
         \<and> DeviceIoControl os h FSCTL_DELETE_REPARSE_POINT
               (set_ReparseGuid gu (delete_buffer tag)) 0 w5 = ((b2, o2), w6)
        \<longrightarrow> (b1 \<noteq> 0 \<longrightarrow>
               ?dels = [EvDeviceIoControl h FSCTL_DELETE_REPARSE_POINT (delete_buffer tag)
                         REPARSE_GUID_DATA_BUFFER_HEADER_SIZE 0 b1]
               \<and> fst ?run = b1)
            \<and> (b1 = 0 \<longrightarrow>
               ?dels = [EvDeviceIoControl h FSCTL_DELETE_REPARSE_POINT (delete_buffer tag)
                         REPARSE_GUID_DATA_BUFFER_HEADER_SIZE 0 0,
                       EvDeviceIoControl h FSCTL_DELETE_REPARSE_POINT
                         (set_ReparseGuid gu (delete_buffer tag))
                         REPARSE_GUID_DATA_BUFFER_HEADER_SIZE 0 b2]
               \<and> fst ?run = b2)"
  proof (intro impI, elim conjE)
    assume rp: "ReparsePointExists os p s \<noteq> 0"
      and g1: "fst (Delete_guid_query os p gu0 s) \<noteq> 0"
      and t1: "fst (Delete_tag_query os p gu0 tag0 s) \<noteq> 0"
      and g2: "fst (snd (Delete_guid_query os p gu0 s)) = Some gu"
      and t2: "fst (snd (Delete_tag_query os p gu0 tag0 s)) = Some tag"
      and O: "Delete_open os p gu0 tag0 s = (h, s4)" and h: "h \<noteq> INVALID_HANDLE_VALUE"
      and d1: "DeviceIoControl os h FSCTL_DELETE_REPARSE_POINT (delete_buffer tag) 0 (world s4)
             = ((b1, o1), w5)"
      and d2: "DeviceIoControl os h FSCTL_DELETE_REPARSE_POINT
               (set_ReparseGuid gu (delete_buffer tag)) 0 w5 = ((b2, o2), w6)"
    have G: "Delete_guid_query os p gu0 s
        = (fst (Delete_guid_query os p gu0 s), Some gu, snd (snd (Delete_guid_query os p gu0 s)))"
      using g2 by (simp add: prod_eq_iff)
    have T: "Delete_tag_query os p gu0 tag0 s
        = (fst (Delete_tag_query os p gu0 tag0 s), Some tag,
           snd (snd (Delete_tag_query os p gu0 tag0 s)))"
      using t2 by (simp add: prod_eq_iff)
    note A = DeleteReparsePoint_attempts[OF rp G g1 T t1 O h d1 d2]
    show "(b1 \<noteq> 0 \<longrightarrow>
               ?dels = [EvDeviceIoControl h FSCTL_DELETE_REPARSE_POINT (delete_buffer tag)
                         REPARSE_GUID_DATA_BUFFER_HEADER_SIZE 0 b1]
               \<and> fst ?run = b1)
            \<and> (b1 = 0 \<longrightarrow>
               ?dels = [EvDeviceIoControl h FSCTL_DELETE_REPARSE_POINT (delete_buffer tag)
                         REPARSE_GUID_DATA_BUFFER_HEADER_SIZE 0 0,
                       EvDeviceIoControl h FSCTL_DELETE_REPARSE_POINT
                         (set_ReparseGuid gu (delete_buffer tag))
                         REPARSE_GUID_DATA_BUFFER_HEADER_SIZE 0 b2]
               \<and> fst ?run = b2)"
      using A by simp
  qed
  from shape none issued show ?thesis unfolding Let_def by (intro conjI)
qed


theorem C4_delete_at_most_two_attempts_witness:
  "fst (Delete_open ntfs ''locked'' (replicate 16 0) 0 (start disk)) = INVALID_HANDLE_VALUE
   \<and> filter (is_request FSCTL_DELETE_REPARSE_POINT) (events_of (start disk)
         (snd (DeleteReparsePoint ntfs ''locked'' (replicate 16 0) 0 (start disk)))) = []
   \<and> fst (DeleteReparsePoint ntfs ''locked'' (replicate 16 0) 0 (start disk)) = FALSE
   \<and> fst (Delete_open ntfs ''symlink'' (replicate 16 0) 0 (start disk)) = 12
   \<and> filter (is_request FSCTL_DELETE_REPARSE_POINT) (events_of (start disk)
         (snd (DeleteReparsePoint ntfs ''symlink'' (replicate 16 0) 0 (start disk))))
       = [EvDeviceIoControl 12 FSCTL_DELETE_REPARSE_POINT (delete_buffer 0xA000000C)
            REPARSE_GUID_DATA_BUFFER_HEADER_SIZE 0 1]
   \<and> fst (DeleteReparsePoint ntfs ''symlink'' (replicate 16 0) 0 (start disk)) = 1
   \<and> fst (Delete_open ntfs ''link'' (replicate 16 0) 0 (start disk)) = 12
   \<and> filter (is_request FSCTL_DELETE_REPARSE_POINT) (events_of (start disk)
         (snd (DeleteReparsePoint ntfs ''link'' (replicate 16 0) 0 (start disk))))
       = [EvDeviceIoControl 12 FSCTL_DELETE_REPARSE_POINT (delete_buffer 0x100)
            REPARSE_GUID_DATA_BUFFER_HEADER_SIZE 0 0,
          EvDeviceIoControl 12 FSCTL_DELETE_REPARSE_POINT
            (set_ReparseGuid guid1 (delete_buffer 0x100))
            REPARSE_GUID_DATA_BUFFER_HEADER_SIZE 0 1]
   \<and> fst (DeleteReparsePoint ntfs ''link'' (replicate 16 0) 0 (start disk)) = 1"
proof -
  let ?Z = "replicate 16 (0 :: BYTE)"
  note q_defs = Delete_open_def Delete_tag_query_def Delete_guid_query_def delete_buffer_def
  \<comment> \<open>the link that cannot be opened for writing\<close>
  have k: "fst (Delete_open ntfs ''locked'' ?Z 0 (start disk)) = INVALID_HANDLE_VALUE"
    by (simp add: q_defs run_defs)
  note K = C4_delete_at_most_two_attempts[of ntfs "''locked''" ?Z 0 "start disk",
      unfolded Let_def, THEN conjunct2, THEN conjunct1,
      THEN mp, OF disjI2, OF disjI2, OF disjI2, OF k]
  \<comment> \<open>the symbolic link: the first attempt is accepted\<close>
  let ?gs = "[0, 0, 4, 0, 4, 0, 4, 0, 0, 0, 0, 0, 0x61, 0, 0x62, 0] :: BYTE list"
  let ?DS = "Delete_open ntfs ''symlink'' ?Z 0 (start disk)"
  let ?S1 = "DeviceIoControl ntfs (fst ?DS) FSCTL_DELETE_REPARSE_POINT
               (delete_buffer 0xA000000C) 0 (world (snd ?DS))"
  let ?S2 = "DeviceIoControl ntfs (fst ?DS) FSCTL_DELETE_REPARSE_POINT
               (set_ReparseGuid ?gs (delete_buffer 0xA000000C)) 0 (snd ?S1)"
  have s_rp: "ReparsePointExists ntfs ''symlink'' (start disk) \<noteq> 0"
    by (simp add: ReparsePointExists_def disk_attrs FILE_ATTRIBUTE_REPARSE_POINT_def)
  have s_g: "fst (Delete_guid_query ntfs ''symlink'' ?Z (start disk)) \<noteq> 0"
    "fst (snd (Delete_guid_query ntfs ''symlink'' ?Z (start disk))) = Some ?gs"
    by (simp_all add: q_defs run_defs)
  have s_t: "fst (Delete_tag_query ntfs ''symlink'' ?Z 0 (start disk)) \<noteq> 0"
    "fst (snd (Delete_tag_query ntfs ''symlink'' ?Z 0 (start disk))) = Some 0xA000000C"
    by (simp_all add: q_defs run_defs)
  have s_h: "fst ?DS = 12" by (simp add: q_defs run_defs)
  have s_b: "fst (fst ?S1) = 1" by (simp add: q_defs run_defs)
  have s_p: "?DS = (fst ?DS, snd ?DS)"
    "?S1 = ((fst (fst ?S1), snd (fst ?S1)), snd ?S1)"
    "?S2 = ((fst (fst ?S2), snd (fst ?S2)), snd ?S2)"
    by simp_all
  have s_i: "fst ?DS \<noteq> INVALID_HANDLE_VALUE"
    by (simp add: s_h INVALID_HANDLE_VALUE_def)
  have s_hyp: "ReparsePointExists ntfs ''symlink'' (start disk) \<noteq> 0
      \<and> fst (Delete_guid_query ntfs ''symlink'' ?Z (start disk)) \<noteq> 0
      \<and> fst (Delete_tag_query ntfs ''symlink'' ?Z 0 (start disk)) \<noteq> 0
      \<and> fst (snd (Delete_guid_query ntfs ''symlink'' ?Z (start disk))) = Some ?gs
      \<and> fst (snd (Delete_tag_query ntfs ''symlink'' ?Z 0 (start disk))) = Some 0xA000000C
      \<and> ?DS = (fst ?DS, snd ?DS) \<and> fst ?DS \<noteq> INVALID_HANDLE_VALUE
      \<and> ?S1 = ((fst (fst ?S1), snd (fst ?S1)), snd ?S1)
      \<and> ?S2 = ((fst (fst ?S2), snd (fst ?S2)), snd ?S2)"
    by (intro conjI s_rp s_g s_t s_p s_i)
  note S = C4_delete_at_most_two_attempts[of ntfs "''symlink''" ?Z 0 "start disk",
      unfolded Let_def, THEN conjunct2, THEN conjunct2,
      THEN mp, OF s_hyp, THEN conjunct1, THEN mp]
  have s_res: "filter (is_request FSCTL_DELETE_REPARSE_POINT) (events_of (start disk)
         (snd (DeleteReparsePoint ntfs ''symlink'' ?Z 0 (start disk))))
       = [EvDeviceIoControl 12 FSCTL_DELETE_REPARSE_POINT (delete_buffer 0xA000000C)
            REPARSE_GUID_DATA_BUFFER_HEADER_SIZE 0 1]
     \<and> fst (DeleteReparsePoint ntfs ''symlink'' ?Z 0 (start disk)) = 1"
    using S s_b s_h by simp
  \<comment> \<open>the custom link: the first attempt is rejected, the second accepted\<close>
  let ?DL = "Delete_open ntfs ''link'' ?Z 0 (start disk)"
  let ?L1 = "DeviceIoControl ntfs (fst ?DL) FSCTL_DELETE_REPARSE_POINT
               (delete_buffer 0x100) 0 (world (snd ?DL))"
  let ?L2 = "DeviceIoControl ntfs (fst ?DL) FSCTL_DELETE_REPARSE_POINT
               (set_ReparseGuid guid1 (delete_buffer 0x100)) 0 (snd ?L1)"
  have l_rp: "ReparsePointExists ntfs ''link'' (start disk) \<noteq> 0"
    by (simp add: ReparsePointExists_def disk_attrs FILE_ATTRIBUTE_REPARSE_POINT_def)
  have l_g: "fst (Delete_guid_query ntfs ''link'' ?Z (start disk)) \<noteq> 0"
    "fst (snd (Delete_guid_query ntfs ''link'' ?Z (start disk))) = Some guid1"
    by (simp_all add: q_defs run_defs)
  have l_t: "fst (Delete_tag_query ntfs ''link'' ?Z 0 (start disk)) \<noteq> 0"
    "fst (snd (Delete_tag_query ntfs ''link'' ?Z 0 (start disk))) = Some 0x100"
    by (simp_all add: q_defs run_defs)
  have l_h: "fst ?DL = 12" by (simp add: q_defs run_defs)
  have l_b: "fst (fst ?L1) = 0" "fst (fst ?L2) = 1" by (simp_all add: q_defs run_defs)
  have l_p: "?DL = (fst ?DL, snd ?DL)"
    "?L1 = ((fst (fst ?L1), snd (fst ?L1)), snd ?L1)"
    "?L2 = ((fst (fst ?L2), snd (fst ?L2)), snd ?L2)"
    by simp_all
  have l_i: "fst ?DL \<noteq> INVALID_HANDLE_VALUE"
    by (simp add: l_h INVALID_HANDLE_VALUE_def)
  have l_hyp: "ReparsePointExists ntfs ''link'' (start disk) \<noteq> 0
      \<and> fst (Delete_guid_query ntfs ''link'' ?Z (start disk)) \<noteq> 0
      \<and> fst (Delete_tag_query ntfs ''link'' ?Z 0 (start disk)) \<noteq> 0
      \<and> fst (snd (Delete_guid_query ntfs ''link'' ?Z (start disk))) = Some guid1
      \<and> fst (snd (Delete_tag_query ntfs ''link'' ?Z 0 (start disk))) = Some 0x100
      \<and> ?DL = (fst ?DL, snd ?DL) \<and> fst ?DL \<noteq> INVALID_HANDLE_VALUE
      \<and> ?L1 = ((fst (fst ?L1), snd (fst ?L1)), snd ?L1)
      \<and> ?L2 = ((fst (fst ?L2), snd (fst ?L2)), snd ?L2)"
    by (intro conjI l_rp l_g l_t l_p l_i)
  note L = C4_delete_at_most_two_attempts[of ntfs "''link''" ?Z 0 "start disk",
      unfolded Let_def, THEN conjunct2, THEN conjunct2,
      THEN mp, OF l_hyp, THEN conjunct2, THEN mp, OF l_b(1)]
  have l_res: "filter (is_request FSCTL_DELETE_REPARSE_POINT) (events_of (start disk)
         (snd (DeleteReparsePoint ntfs ''link'' ?Z 0 (start disk))))
       = [EvDeviceIoControl 12 FSCTL_DELETE_REPARSE_POINT (delete_buffer 0x100)
            REPARSE_GUID_DATA_BUFFER_HEADER_SIZE 0 0,
          EvDeviceIoControl 12 FSCTL_DELETE_REPARSE_POINT
            (set_ReparseGuid guid1 (delete_buffer 0x100))
            REPARSE_GUID_DATA_BUFFER_HEADER_SIZE 0 1]
     \<and> fst (DeleteReparsePoint ntfs ''link'' ?Z 0 (start disk)) = 1"
    using L l_b(2) l_h by simp
  from k K s_h s_res l_h l_res show ?thesis by (intro conjI) simp_all
qed

text \<open>
  C5. The SET request should never be longer than the maximum transfer size of 16384 bytes.
  Its byte count is the header with the GUID plus the payload length; run with a payload of
  16384 bytes, which the check of the source lets through, it is 16408.
\<close>
theorem C5_set_request_exceeds_maximum:
  "MAXIMUM_REPARSE_DATA_BUFFER_SIZE = 16384
   \<and> map request_size (filter (is_request FSCTL_SET_REPARSE_POINT) (events_of (start disk)
        (snd (CreateCustomReparsePoint ntfs ''plain'' (Some (replicate 16384 7)) 16384
               guid1 0x100 (start disk)))))
       = [REPARSE_GUID_DATA_BUFFER_HEADER_SIZE + 16384]
   \<and> REPARSE_GUID_DATA_BUFFER_HEADER_SIZE + 16384 > MAXIMUM_REPARSE_DATA_BUFFER_SIZE"
proof (cases rule: CreateCustomReparsePoint_summary[of 16384 ntfs "''plain''" "replicate 16384 7"
        guid1 "0x100" "start disk"])
  case invalid
  then show ?thesis by (simp add: MAXIMUM_REPARSE_DATA_BUFFER_SIZE_def)
next
  case (noopen fl s')
  then show ?thesis by (simp add: open_plain_for_write INVALID_HANDLE_VALUE_def)
next
  case (issued fl h r s')
  then show ?thesis
    by (simp add: events_of_def off_defs MAXIMUM_REPARSE_DATA_BUFFER_SIZE_def
          CreateCustomReparsePoint_def)
qed

text \<open>
  C6. \<open>DeleteReparsePoint\<close> fails without issuing any DELETE request whenever the path
  lacks the reparse-point attribute or its GUID or its tag cannot be retrieved. On a path
  without the attribute it returns \<open>FALSE\<close> and leaves the process state as it was: nothing
  was done, and every such call fails the same way.
\<close>
theorem C6_delete_fails_without_request:
  "(ReparsePointExists os p s = 0 \<longrightarrow> DeleteReparsePoint os p gu0 tag0 s = (FALSE, s))
   \<and> (ReparsePointExists os p s = 0 \<or> fst (Delete_guid_query os p gu0 s) = 0
        \<or> fst (Delete_tag_query os p gu0 tag0 s) = 0 \<longrightarrow>
      fst (DeleteReparsePoint os p gu0 tag0 s) = FALSE
      \<and> filter (is_request FSCTL_DELETE_REPARSE_POINT)
            (events_of s (snd (DeleteReparsePoint os p gu0 tag0 s))) = [])"
proof (cases rule: DeleteReparsePoint_summary[of os p s gu0 tag0])
  case noattr
  then show ?thesis by (simp add: events_of_self)
next
  case (noguid e1 s')
  then show ?thesis by (auto simp add: events_of_def nodel_def DeleteReparsePoint_def)
next
  case (notag e1 e2 i s')
  then show ?thesis by (auto simp add: events_of_def nodel_def DeleteReparsePoint_def)
next
  case (noopen e1 e2 i fl s')
  then show ?thesis by simp
next
  case (first e1 e2 i fl h b tag s')
  then show ?thesis by simp
next
  case (second e1 e2 i fl h b tag gu s')
  then show ?thesis by simp
qed

theorem C6_delete_fails_without_request_witness:
  "ReparsePointExists ntfs ''plain'' (start disk) = 0
   \<and> DeleteReparsePoint ntfs ''plain'' (replicate 16 0) 0 (start disk) = (FALSE, start disk)
   \<and> ReparsePointExists ntfs ''missing'' (start disk) \<noteq> 0
   \<and> fst (Delete_guid_query ntfs ''missing'' (replicate 16 0) (start disk)) = 0
   \<and> fst (DeleteReparsePoint ntfs ''missing'' (replicate 16 0) 0 (start disk)) = FALSE
   \<and> filter (is_request FSCTL_DELETE_REPARSE_POINT)
        (events_of (start disk)
           (snd (DeleteReparsePoint ntfs ''missing'' (replicate 16 0) 0 (start disk)))) = []"
proof -
  have a: "ReparsePointExists ntfs ''plain'' (start disk) = 0"
    by (simp add: ReparsePointExists_def disk_attrs FILE_ATTRIBUTE_REPARSE_POINT_def)
  have b: "ReparsePointExists ntfs ''missing'' (start disk) \<noteq> 0"
    by (simp add: ReparsePointExists_def disk_attrs FILE_ATTRIBUTE_REPARSE_POINT_def
          INVALID_FILE_ATTRIBUTES_def)
  have c: "fst (Delete_guid_query ntfs ''missing'' (replicate 16 0) (start disk)) = 0"
    by (simp add: Delete_guid_query_def run_defs)
  show ?thesis
    using a b c
      C6_delete_fails_without_request[of ntfs "''plain''" "start disk" "replicate 16 0" 0]
      C6_delete_fails_without_request[of ntfs "''missing''" "start disk" "replicate 16 0" 0]
    by simp
qed




text \<open>
  The delete buffer is not header-only. On the custom link of the scenario the run allocates
  three blocks, two query buffers of 16384 bytes and the delete buffer of 24 bytes; no block
  has the size of the header without the GUID, which is 8 bytes.
\<close>
theorem C8_delete_buffer_not_header_only:
  "REPARSE_DATA_BUFFER_HEADER_SIZE = 8
   \<and> filter is_alloc (events_of (start disk)
         (snd (DeleteReparsePoint ntfs ''link'' (replicate 16 0) 0 (start disk))))
       = [EvGlobalAlloc 0 16384, EvGlobalAlloc 1 24, EvGlobalAlloc 2 16384]
   \<and> EvGlobalAlloc 1 REPARSE_DATA_BUFFER_HEADER_SIZE \<notin> set (events_of (start disk)
         (snd (DeleteReparsePoint ntfs ''link'' (replicate 16 0) 0 (start disk))))"
  by (simp add: run_defs events_of_def REPARSE_DATA_BUFFER_HEADER_SIZE_def)

text \<open>
  C8, as the code has it. \<open>DeleteReparsePoint\<close> allocates its delete buffer with
  \<open>REPARSE_GUID_DATA_BUFFER_HEADER_SIZE\<close>, the header that includes the GUID (24 bytes),
  right after the GUID query has succeeded. Every DELETE request of the run is issued with
  that byte count and no output buffer, on 24 bytes whose tag field is the retrieved tag
  and whose length and reserved fields are zero. The first request carries the buffer as
  allocated with only the tag stored: its GUID field is zero.
\<close>
theorem C8_delete_buffer_is_guid_header_sized:
  "REPARSE_GUID_DATA_BUFFER_HEADER_SIZE = 24
   \<and> (ReparsePointExists os p s \<noteq> 0 \<and> fst (Delete_guid_query os p gu0 s) \<noteq> 0 \<longrightarrow>
        EvGlobalAlloc (next_id (snd (snd (Delete_guid_query os p gu0 s))))
            REPARSE_GUID_DATA_BUFFER_HEADER_SIZE
          \<in> set (events_of s (snd (DeleteReparsePoint os p gu0 tag0 s))))
   \<and> (\<forall>h m n k b. EvDeviceIoControl h FSCTL_DELETE_REPARSE_POINT m n k b
            \<in> set (events_of s (snd (DeleteReparsePoint os p gu0 tag0 s))) \<longrightarrow>
          n = REPARSE_GUID_DATA_BUFFER_HEADER_SIZE \<and> k = 0
          \<and> length m = REPARSE_GUID_DATA_BUFFER_HEADER_SIZE
          \<and> Some (get_ReparseTag m) = fst (snd (Delete_tag_query os p gu0 tag0 s))
          \<and> get_ReparseDataLength m = 0 \<and> get_Reserved m = 0)
   \<and> (\<forall>tag. fst (snd (Delete_tag_query os p gu0 tag0 s)) = Some tag
          \<and> filter (is_request FSCTL_DELETE_REPARSE_POINT)
                (events_of s (snd (DeleteReparsePoint os p gu0 tag0 s))) \<noteq> [] \<longrightarrow>
          request_input (hd (filter (is_request FSCTL_DELETE_REPARSE_POINT)
                (events_of s (snd (DeleteReparsePoint os p gu0 tag0 s))))) = delete_buffer tag)
   \<and> (filter (is_request FSCTL_DELETE_REPARSE_POINT)
          (events_of s (snd (DeleteReparsePoint os p gu0 tag0 s))) \<noteq> [] \<longrightarrow>
        get_ReparseGuid (request_input (hd (filter (is_request FSCTL_DELETE_REPARSE_POINT)
          (events_of s (snd (DeleteReparsePoint os p gu0 tag0 s)))))) = replicate 16 0)"
proof (cases rule: DeleteReparsePoint_summary[of os p s gu0 tag0])
  case noattr
  then show ?thesis by (simp add: events_of_self off_defs)
next
  case (noguid e1 s')
  then show ?thesis by (auto simp add: events_of_def off_defs nodel_filter dest: nodel_notin)
next
  case (notag e1 e2 i s')
  then show ?thesis by (auto simp add: events_of_def off_defs nodel_filter dest: nodel_notin)
next
  case (noopen e1 e2 i fl s')
  then show ?thesis by (auto simp add: events_of_def off_defs nodel_filter dest: nodel_notin)
next
  case (first e1 e2 i fl h b tag s')
  then show ?thesis
    by (auto simp add: events_of_def delete_buffer_fields delete_buffer_def nodel_filter
          dest: nodel_notin)
       (simp_all add: off_defs)
next
  case (second e1 e2 i fl h b tag gu s')
  then show ?thesis
    by (auto simp add: events_of_def delete_buffer_fields guid_buffer_fields delete_buffer_def
          nodel_filter dest: nodel_notin)
       (simp_all add: off_defs)
qed


theorem C8_delete_buffer_is_guid_header_sized_witness:
  "ReparsePointExists ntfs ''link'' (start disk) \<noteq> 0
   \<and> fst (Delete_guid_query ntfs ''link'' (replicate 16 0) (start disk)) \<noteq> 0
   \<and> next_id (snd (snd (Delete_guid_query ntfs ''link'' (replicate 16 0) (start disk)))) = 1
   \<and> EvGlobalAlloc 1 24 \<in> set (events_of (start disk)
         (snd (DeleteReparsePoint ntfs ''link'' (replicate 16 0) 0 (start disk))))
   \<and> EvDeviceIoControl 12 FSCTL_DELETE_REPARSE_POINT
         [0, 1, 0, 0, 0, 0, 0, 0, 0, 0, 0, 0, 0, 0, 0, 0, 0, 0, 0, 0, 0, 0, 0, 0] 24 0 0
       \<in> set (events_of (start disk)
         (snd (DeleteReparsePoint ntfs ''link'' (replicate 16 0) 0 (start disk))))
   \<and> fst (snd (Delete_tag_query ntfs ''link'' (replicate 16 0) 0 (start disk))) = Some 0x100
   \<and> filter (is_request FSCTL_DELETE_REPARSE_POINT) (events_of (start disk)
         (snd (DeleteReparsePoint ntfs ''link'' (replicate 16 0) 0 (start disk)))) \<noteq> []
   \<and> request_input (hd (filter (is_request FSCTL_DELETE_REPARSE_POINT) (events_of (start disk)
         (snd (DeleteReparsePoint ntfs ''link'' (replicate 16 0) 0 (start disk))))))
       = delete_buffer 0x100
   \<and> get_ReparseGuid (request_input (hd (filter (is_request FSCTL_DELETE_REPARSE_POINT)
         (events_of (start disk)
           (snd (DeleteReparsePoint ntfs ''link'' (replicate 16 0) 0 (start disk)))))))
       = replicate 16 0"
proof -
  note T = C8_delete_buffer_is_guid_header_sized[of ntfs "''link''" "start disk"
      "replicate 16 0" 0]
  have a: "ReparsePointExists ntfs ''link'' (start disk) \<noteq> 0"
    by (simp add: ReparsePointExists_def disk_attrs FILE_ATTRIBUTE_REPARSE_POINT_def)
  have b: "fst (Delete_guid_query ntfs ''link'' (replicate 16 0) (start disk)) \<noteq> 0"
    "next_id (snd (snd (Delete_guid_query ntfs ''link'' (replicate 16 0) (start disk)))) = 1"
    by (simp_all add: Delete_guid_query_def run_defs)
  have c: "EvDeviceIoControl 12 FSCTL_DELETE_REPARSE_POINT
         [0, 1, 0, 0, 0, 0, 0, 0, 0, 0, 0, 0, 0, 0, 0, 0, 0, 0, 0, 0, 0, 0, 0, 0] 24 0 0
       \<in> set (events_of (start disk)
         (snd (DeleteReparsePoint ntfs ''link'' (replicate 16 0) 0 (start disk))))"
    by (simp add: run_defs events_of_def)
  have d: "get_ReparseTag [0, 1, 0, 0, 0, 0, 0, 0, 0, 0, 0, 0, 0, 0, 0, 0, 0, 0, 0, 0, 0, 0, 0, 0]
       = (0x100 :: DWORD)"
    by (simp add: field_defs off_defs)
  have ne: "filter (is_request FSCTL_DELETE_REPARSE_POINT) (events_of (start disk)
         (snd (DeleteReparsePoint ntfs ''link'' (replicate 16 0) 0 (start disk)))) \<noteq> []"
    by (simp add: run_defs events_of_def)
  have hs: "REPARSE_GUID_DATA_BUFFER_HEADER_SIZE = 24" by (rule T[THEN conjunct1])
  have e: "EvGlobalAlloc 1 24 \<in> set (events_of (start disk)
         (snd (DeleteReparsePoint ntfs ''link'' (replicate 16 0) 0 (start disk))))"
    using T[THEN conjunct2, THEN conjunct1, THEN mp, OF conjI, OF a b(1)]
    by (simp only: b(2) hs)
  have f: "Some (get_ReparseTag
        [0, 1, 0, 0, 0, 0, 0, 0, 0, 0, 0, 0, 0, 0, 0, 0, 0, 0, 0, 0, 0, 0, 0, 0])
       = fst (snd (Delete_tag_query ntfs ''link'' (replicate 16 0) 0 (start disk)))"
    using T[THEN conjunct2, THEN conjunct2, THEN conjunct1, rule_format, OF c] by blast
  have t: "fst (snd (Delete_tag_query ntfs ''link'' (replicate 16 0) 0 (start disk))) = Some 0x100"
    using f by (simp only: d)
  note g = T[THEN conjunct2, THEN conjunct2, THEN conjunct2, THEN conjunct1, rule_format,
      OF conjI, OF t ne]
  note h = T[THEN conjunct2, THEN conjunct2, THEN conjunct2, THEN conjunct2, THEN mp, OF ne]
  show ?thesis by (intro conjI a b c e t ne g h)
qed

text \<open>
  C9. When the output pointer is not null, the path has the attribute, the open for reading
  succeeds and the driver accepts the GET request, \<open>GetReparseGUID\<close> returns \<open>TRUE\<close> and
  the GUID it stores is the 16 bytes at offset 8 of the buffer the driver filled, whatever
  the buffer holds: the tag in its first four bytes is never looked at. For an answer of at
  least 24 bytes these are bytes 8 to 23 of the answer.
\<close>
theorem C9_guid_read_at_fixed_offset:
  "pGuid \<noteq> None \<and> ReparsePointExists os p s \<noteq> 0
   \<and> OpenFileForRead os p (GetFileAttributes os (world s) p AND FILE_ATTRIBUTE_DIRECTORY) s
       = (h, s1)
   \<and> h \<noteq> INVALID_HANDLE_VALUE
   \<and> DeviceIoControl os h FSCTL_GET_REPARSE_POINT [] MAXIMUM_REPARSE_DATA_BUFFER_SIZE (world s1)
       = ((r, out), w)
   \<and> r \<noteq> 0
   \<longrightarrow> fst (GetReparseGUID os p pGuid s) = TRUE
     \<and> fst (snd (GetReparseGUID os p pGuid s))
         = Some (load_bytes off_ReparseGuid 16
                   (answer (take MAXIMUM_REPARSE_DATA_BUFFER_SIZE out)))
     \<and> (24 \<le> length out \<longrightarrow>
          fst (snd (GetReparseGUID os p pGuid s)) = Some (take 16 (drop 8 out)))"
proof (intro impI, elim conjE)
  assume np: "pGuid \<noteq> None" and rp: "ReparsePointExists os p s \<noteq> 0"
    and o: "OpenFileForRead os p (GetFileAttributes os (world s) p AND FILE_ATTRIBUTE_DIRECTORY) s
       = (h, s1)"
    and h: "h \<noteq> INVALID_HANDLE_VALUE"
    and d: "DeviceIoControl os h FSCTL_GET_REPARSE_POINT [] MAXIMUM_REPARSE_DATA_BUFFER_SIZE (world s1)
       = ((r, out), w)"
    and r: "r \<noteq> 0"
  obtain rd s2 where a: "GlobalAlloc MAXIMUM_REPARSE_DATA_BUFFER_SIZE s1 = (rd, s2)"
    by (metis surj_pair)
  have w2: "world s2 = world s1" by (rule GlobalAlloc_run[OF a])
  have c: "call_DeviceIoControl os h FSCTL_GET_REPARSE_POINT None 0
      MAXIMUM_REPARSE_DATA_BUFFER_SIZE s2
      = ((r, take MAXIMUM_REPARSE_DATA_BUFFER_SIZE out),
         s2\<lparr>world := w, trace := trace s2 @ [EvDeviceIoControl h FSCTL_GET_REPARSE_POINT [] 0
              MAXIMUM_REPARSE_DATA_BUFFER_SIZE r]\<rparr>)"
    by (simp add: call_DeviceIoControl_def w2 d)
  note u = GetReparseGUID_unfold[OF o a c, of pGuid]
  have 1: "fst (GetReparseGUID os p pGuid s) = TRUE"
    and 2: "fst (snd (GetReparseGUID os p pGuid s))
         = Some (get_ReparseGuid (answer (take MAXIMUM_REPARSE_DATA_BUFFER_SIZE out)))"
    unfolding u using np rp h r by auto
  have 3: "24 \<le> length out \<Longrightarrow>
     get_ReparseGuid (answer (take MAXIMUM_REPARSE_DATA_BUFFER_SIZE out)) = take 16 (drop 8 out)"
    by (simp add: answer_long MAXIMUM_REPARSE_DATA_BUFFER_SIZE_def drop_take)
  show "fst (GetReparseGUID os p pGuid s) = TRUE
     \<and> fst (snd (GetReparseGUID os p pGuid s))
         = Some (load_bytes off_ReparseGuid 16
                   (answer (take MAXIMUM_REPARSE_DATA_BUFFER_SIZE out)))
     \<and> (24 \<le> length out \<longrightarrow>
          fst (snd (GetReparseGUID os p pGuid s)) = Some (take 16 (drop 8 out)))"
    using 1 2 3 by (simp add: get_ReparseGuid_def)
qed


theorem C9_guid_read_at_fixed_offset_witness:
  "ReparsePointExists ntfs ''symlink'' (start disk) \<noteq> 0
   \<and> fst (OpenFileForRead ntfs ''symlink''
          (GetFileAttributes ntfs (world (start disk)) ''symlink'' AND FILE_ATTRIBUTE_DIRECTORY)
          (start disk)) = 4
   \<and> (4 :: HANDLE) \<noteq> INVALID_HANDLE_VALUE
   \<and> fst (DeviceIoControl ntfs 4 FSCTL_GET_REPARSE_POINT [] MAXIMUM_REPARSE_DATA_BUFFER_SIZE
          (world (snd (OpenFileForRead ntfs ''symlink''
             (GetFileAttributes ntfs (world (start disk)) ''symlink'' AND FILE_ATTRIBUTE_DIRECTORY)
             (start disk))))) = (1, symlink_buffer)
   \<and> get_ReparseTag symlink_buffer = 0xA000000C
   \<and> fst (GetReparseGUID ntfs ''symlink'' (Some guid1) (start disk)) = TRUE
   \<and> fst (snd (GetReparseGUID ntfs ''symlink'' (Some guid1) (start disk)))
       = Some [0, 0, 4, 0, 4, 0, 4, 0, 0, 0, 0, 0, 0x61, 0, 0x62, 0]"
proof -
  let ?b = "GetFileAttributes ntfs (world (start disk)) ''symlink'' AND FILE_ATTRIBUTE_DIRECTORY"
  let ?s1 = "snd (OpenFileForRead ntfs ''symlink'' ?b (start disk))"
  let ?w = "snd (DeviceIoControl ntfs 4 FSCTL_GET_REPARSE_POINT []
               MAXIMUM_REPARSE_DATA_BUFFER_SIZE (world ?s1))"
  have a: "ReparsePointExists ntfs ''symlink'' (start disk) \<noteq> 0"
    by (simp add: ReparsePointExists_def disk_attrs FILE_ATTRIBUTE_REPARSE_POINT_def)
  have o: "fst (OpenFileForRead ntfs ''symlink'' ?b (start disk)) = 4"
    by (simp add: run_defs)
  have h: "(4 :: HANDLE) \<noteq> INVALID_HANDLE_VALUE" by (simp add: INVALID_HANDLE_VALUE_def)
  have d: "fst (DeviceIoControl ntfs 4 FSCTL_GET_REPARSE_POINT []
               MAXIMUM_REPARSE_DATA_BUFFER_SIZE (world ?s1)) = (1, symlink_buffer)"
    by (simp add: run_defs)
  have t: "get_ReparseTag symlink_buffer = 0xA000000C"
    by (simp add: symlink_buffer_def field_defs off_defs)
  have l: "24 \<le> length symlink_buffer" "take 16 (drop 8 symlink_buffer)
       = [0, 0, 4, 0, 4, 0, 4, 0, 0, 0, 0, 0, 0x61, 0, 0x62, 0]"
    by (simp_all add: symlink_buffer_def)
  have o': "OpenFileForRead ntfs ''symlink'' ?b (start disk) = (4, ?s1)"
    using o by (simp add: prod_eq_iff)
  have d': "DeviceIoControl ntfs 4 FSCTL_GET_REPARSE_POINT []
               MAXIMUM_REPARSE_DATA_BUFFER_SIZE (world ?s1) = ((1, symlink_buffer), ?w)"
    using d by (simp add: prod_eq_iff)
  have H: "Some guid1 \<noteq> None \<and> ReparsePointExists ntfs ''symlink'' (start disk) \<noteq> 0
     \<and> OpenFileForRead ntfs ''symlink'' ?b (start disk) = (4, ?s1)
     \<and> (4 :: HANDLE) \<noteq> INVALID_HANDLE_VALUE
     \<and> DeviceIoControl ntfs 4 FSCTL_GET_REPARSE_POINT []
               MAXIMUM_REPARSE_DATA_BUFFER_SIZE (world ?s1) = ((1, symlink_buffer), ?w)
     \<and> (1 :: BOOL) \<noteq> 0"
    by (intro conjI a o' h d') simp_all
  note C = C9_guid_read_at_fixed_offset[of "Some guid1" ntfs "''symlink''" "start disk" 4 ?s1
      1 symlink_buffer ?w, THEN mp, OF H]
  have r1: "fst (GetReparseGUID ntfs ''symlink'' (Some guid1) (start disk)) = TRUE"
    by (rule C[THEN conjunct1])
  have r2: "fst (snd (GetReparseGUID ntfs ''symlink'' (Some guid1) (start disk)))
       = Some [0, 0, 4, 0, 4, 0, 4, 0, 0, 0, 0, 0, 0x61, 0, 0x62, 0]"
    using C[THEN conjunct2, THEN conjunct2, THEN mp, OF l(1)] by (simp only: l(2))
  from a o h d t r1 r2 show ?thesis by (intro conjI)
qed

text \<open>
  C10. A query that fails, for whatever reason, leaves the caller's output location as it
  was and writes nothing through the pointer. A query that does not fail returns \<open>TRUE\<close>
  and writes through the pointer exactly once; the location then holds the value written.
\<close>
theorem C10_output_written_only_on_success:
  "(fst (GetReparseGUID os p pGuid s) = FALSE \<longrightarrow>
      fst (snd (GetReparseGUID os p pGuid s)) = pGuid
      \<and> filter is_store (events_of s (snd (snd (GetReparseGUID os p pGuid s)))) = [])
   \<and> (fst (GetReparseGUID os p pGuid s) \<noteq> FALSE \<longrightarrow>
      fst (GetReparseGUID os p pGuid s) = TRUE
      \<and> (\<exists>g. fst (snd (GetReparseGUID os p pGuid s)) = Some g
            \<and> filter is_store (events_of s (snd (snd (GetReparseGUID os p pGuid s))))
                = [EvStore g]))
   \<and> (fst (GetReparseTag os p pTag s) = FALSE \<longrightarrow>
      fst (snd (GetReparseTag os p pTag s)) = pTag
      \<and> filter is_store (events_of s (snd (snd (GetReparseTag os p pTag s)))) = [])
   \<and> (fst (GetReparseTag os p pTag s) \<noteq> FALSE \<longrightarrow>
      fst (GetReparseTag os p pTag s) = TRUE
      \<and> (\<exists>t. fst (snd (GetReparseTag os p pTag s)) = Some t
            \<and> filter is_store (events_of s (snd (snd (GetReparseTag os p pTag s))))
                = [EvStore (to_le 4 t)]))"
proof -
  have tf: "TRUE \<noteq> FALSE" by (simp add: TRUE_def FALSE_def)
  have g: "(fst (GetReparseGUID os p pGuid s) = FALSE \<longrightarrow>
      fst (snd (GetReparseGUID os p pGuid s)) = pGuid
      \<and> filter is_store (events_of s (snd (snd (GetReparseGUID os p pGuid s)))) = [])
   \<and> (fst (GetReparseGUID os p pGuid s) \<noteq> FALSE \<longrightarrow>
      fst (GetReparseGUID os p pGuid s) = TRUE
      \<and> (\<exists>g. fst (snd (GetReparseGUID os p pGuid s)) = Some g
            \<and> filter is_store (events_of s (snd (snd (GetReparseGUID os p pGuid s))))
                = [EvStore g]))"
  proof (cases rule: GetReparseGUID_summary[of pGuid os p s])
    case early
    then show ?thesis by (simp add: events_of_self)
  next
    case (noopen fl s')
    then show ?thesis by (simp add: events_of_def)
  next
    case (rejected fl h s')
    then show ?thesis by (simp add: events_of_def)
  next
    case (accepted fl h r g s')
    then show ?thesis by (simp add: events_of_def tf)
  qed
  have t: "(fst (GetReparseTag os p pTag s) = FALSE \<longrightarrow>
      fst (snd (GetReparseTag os p pTag s)) = pTag
      \<and> filter is_store (events_of s (snd (snd (GetReparseTag os p pTag s)))) = [])
   \<and> (fst (GetReparseTag os p pTag s) \<noteq> FALSE \<longrightarrow>
      fst (GetReparseTag os p pTag s) = TRUE
      \<and> (\<exists>t. fst (snd (GetReparseTag os p pTag s)) = Some t
            \<and> filter is_store (events_of s (snd (snd (GetReparseTag os p pTag s))))
                = [EvStore (to_le 4 t)]))"
  proof (cases rule: GetReparseTag_summary[of pTag os p s])
    case early
    then show ?thesis by (simp add: events_of_self)
  next
    case (noopen fl s')
    then show ?thesis by (simp add: events_of_def)
  next
    case (rejected fl h s')
    then show ?thesis by (simp add: events_of_def)
  next
    case (accepted fl h r g s')
    then show ?thesis by (simp add: events_of_def tf)
  qed
  from g t show ?thesis by blast
qed

theorem C10_output_written_only_on_success_witness:
  "fst (GetReparseGUID ntfs ''missing'' (Some guid1) (start disk)) = FALSE
   \<and> fst (snd (GetReparseGUID ntfs ''missing'' (Some guid1) (start disk))) = Some guid1
   \<and> fst (GetReparseGUID ntfs ''link'' (Some (replicate 16 0)) (start disk)) \<noteq> FALSE
   \<and> filter is_store (events_of (start disk)
         (snd (snd (GetReparseGUID ntfs ''link'' (Some (replicate 16 0)) (start disk)))))
       = [EvStore guid1]
   \<and> fst (GetReparseTag ntfs ''missing'' (Some 7) (start disk)) = FALSE
   \<and> fst (snd (GetReparseTag ntfs ''missing'' (Some 7) (start disk))) = Some 7
   \<and> fst (GetReparseTag ntfs ''link'' (Some 7) (start disk)) \<noteq> FALSE
   \<and> fst (snd (GetReparseTag ntfs ''link'' (Some 7) (start disk))) = Some 0x100"
proof -
  have a: "fst (GetReparseGUID ntfs ''missing'' (Some guid1) (start disk)) = FALSE"
    "fst (GetReparseGUID ntfs ''link'' (Some (replicate 16 0)) (start disk)) \<noteq> FALSE"
    "fst (GetReparseTag ntfs ''missing'' (Some 7) (start disk)) = FALSE"
    "fst (GetReparseTag ntfs ''link'' (Some 7) (start disk)) \<noteq> FALSE"
    by (simp_all add: run_defs)
  have b: "fst (snd (GetReparseGUID ntfs ''link'' (Some (replicate 16 0)) (start disk)))
       = Some guid1"
    "fst (snd (GetReparseTag ntfs ''link'' (Some 7) (start disk))) = Some 0x100"
    by (simp_all add: run_defs)
  note m = C10_output_written_only_on_success[of ntfs "''missing''" "Some guid1" "start disk" "Some 7"]
  note l = C10_output_written_only_on_success[of ntfs "''link''" "Some (replicate 16 0)" "start disk" "Some 7"]
  have c: "fst (snd (GetReparseGUID ntfs ''missing'' (Some guid1) (start disk))) = Some guid1"
    using m a(1) by blast
  have d: "fst (snd (GetReparseTag ntfs ''missing'' (Some 7) (start disk))) = Some 7"
    using m a(3) by blast
  have e: "filter is_store (events_of (start disk)
         (snd (snd (GetReparseGUID ntfs ''link'' (Some (replicate 16 0)) (start disk)))))
       = [EvStore guid1]"
    using l a(2) b(1) by auto
  from a b c d e show ?thesis by (intro conjI)
qed

end
